theory Spec2Isabelle
  imports Main
begin

section \<open>JavaScript values\<close>

text \<open>
  Everything the console stores comes out of an HTTP response body, and TypeScript's
  interfaces are erased at run time, so the store holds plain JavaScript values.
  Numbers are modelled as integers (the console never computes with fractions);
  an object is the list of its own properties, looked up by key.
\<close>

datatype json =
    JUndefined
  | JNull
  | JBool bool
  | JNum int
  | JStr string
  | JArr "json list"
  | JObj "(string \<times> json) list"

text \<open>A thrown value: an instance of \<open>Error\<close> with its message, or anything else.\<close>

datatype js_exn = JsError string | NonError

text \<open>\<open>!!v\<close>: the values JavaScript treats as false are undefined, null, false, 0 and ''.\<close>

fun truthy :: "json \<Rightarrow> bool" where
  "truthy JUndefined = False"
| "truthy JNull = False"
| "truthy (JBool b) = b"
| "truthy (JNum n) = (n \<noteq> 0)"
| "truthy (JStr s) = (s \<noteq> [])"
| "truthy (JArr xs) = True"
| "truthy (JObj kvs) = True"

text \<open>\<open>a || b\<close>.\<close>

definition js_or :: "json \<Rightarrow> json \<Rightarrow> json" where
  "js_or a b = (if truthy a then a else b)"

text \<open>
  \<open>v.k\<close>, for the keys the console reads (data, pagination, role, user, access_token,
  refresh_token, url: none of them a built-in property of a string or an array).
  Reading a property of null or undefined throws a TypeError; the wording of its
  message is the engine's.
\<close>

fun get_prop :: "json \<Rightarrow> string \<Rightarrow> js_exn + json" where
  "get_prop JUndefined k =
     Inl (JsError (''Cannot read properties of undefined (reading '' @ k @ '')''))"
| "get_prop JNull k =
     Inl (JsError (''Cannot read properties of null (reading '' @ k @ '')''))"
| "get_prop (JObj kvs) k = Inr (case map_of kvs k of None \<Rightarrow> JUndefined | Some v \<Rightarrow> v)"
| "get_prop v k = Inr JUndefined"

text \<open>Decimal digits of a number: \<open>n.toString()\<close> and \<open>`${n}`\<close> for an integer.\<close>

fun show_nat :: "nat \<Rightarrow> string" where
  "show_nat n =
     (if n < 10 then [char_of (48 + n)] else show_nat (n div 10) @ [char_of (48 + n mod 10)])"

definition show_int :: "int \<Rightarrow> string" where
  "show_int i = (if i < 0 then ''-'' @ show_nat (nat (- i)) else show_nat (nat i))"

fun join_comma :: "string list \<Rightarrow> string" where
  "join_comma [] = []"
| "join_comma [s] = s"
| "join_comma (s # t # ss) = s @ '','' @ join_comma (t # ss)"

text \<open>
  \<open>`${v}`\<close>: the string a template literal makes of a value. null gives ''null'',
  undefined gives ''undefined'', an array joins its elements with commas (null and
  undefined elements as the empty string), any object gives ''[object Object]''.
\<close>

fun template_str :: "json \<Rightarrow> string" where
  "template_str JUndefined = ''undefined''"
| "template_str JNull = ''null''"
| "template_str (JBool b) = (if b then ''true'' else ''false'')"
| "template_str (JNum n) = show_int n"
| "template_str (JStr s) = s"
| "template_str (JArr xs) =
     join_comma (map (\<lambda>x. if x = JNull \<or> x = JUndefined then [] else template_str x) xs)"
| "template_str (JObj kvs) = ''[object Object]''"

text \<open>\<open>process.env.NAME || fallback\<close>: the fallback when the variable is unset or empty.\<close>

definition env_or :: "string option \<Rightarrow> string \<Rightarrow> string" where
  "env_or v fallback = (case v of None \<Rightarrow> fallback | Some s \<Rightarrow> if s = [] then fallback else s)"

section \<open>HTTP\<close>

datatype http_method = GET | POST | PATCH | DELETE

datatype req_body = NoBody | JsonBody json | FormData string

record request =
  meth :: http_method
  url :: string
  headers :: "(string \<times> string) list"
  body :: req_body
  timeout :: "nat option"

text \<open>
  What the backend does with a request: no response at all (the network failed, with
  the error the client library raises), or a status code and a JSON body.
  The backend is a function of the whole history of requests, the last one being the
  request it answers, so that it may answer the same request differently after a
  mutation. A response whose body is not JSON is not modelled.
\<close>

datatype reply = NetFail js_exn | Reply nat json

type_synonym backend = "request list \<Rightarrow> reply"

definition status_ok :: "nat \<Rightarrow> bool" where
  "status_ok st = (200 \<le> st \<and> st \<le> 299)"

text \<open>
  axios resolves with the body (\<open>response.data\<close>) on a 2xx status and rejects with an
  Error otherwise.
\<close>

datatype axios_result = Rejected js_exn | Resolved json

definition axios_settle :: "reply \<Rightarrow> axios_result" where
  "axios_settle r =
     (case r of
        NetFail e \<Rightarrow> Rejected e
      | Reply st d \<Rightarrow>
          if status_ok st then Resolved d
          else Rejected (JsError (''Request failed with status code '' @ show_nat st)))"

section \<open>The store\<close>

text \<open>The data fields of \<open>AdminState\<close>, with \<open>null\<close> of a string field as \<open>None\<close>.\<close>

record admin_state =
  healthData :: json
  loading :: bool
  error :: "string option"
  user :: json
  accessToken :: json
  refreshToken :: json
  isLoading :: bool
  authError :: "string option"
  packages :: json
  packagesLoading :: bool
  packagesError :: "string option"
  reviews :: json
  reviewsLoading :: bool
  reviewsError :: "string option"
  reviewsPagination :: json

definition initial_state :: admin_state where
  "initial_state =
     \<lparr> healthData = JNull, loading = False, error = None,
       user = JNull, accessToken = JNull, refreshToken = JNull,
       isLoading = False, authError = None,
       packages = JArr [], packagesLoading = False, packagesError = None,
       reviews = JArr [], reviewsLoading = False, reviewsError = None,
       reviewsPagination = JNull \<rparr>"

text \<open>What \<open>partialize\<close> keeps: the value stored under the key admin-auth-storage.\<close>

record persisted =
  p_user :: json
  p_accessToken :: json
  p_refreshToken :: json

definition partialize :: "admin_state \<Rightarrow> persisted" where
  "partialize s =
     \<lparr> p_user = user s, p_accessToken = accessToken s, p_refreshToken = refreshToken s \<rparr>"

text \<open>
  The \<open>useState\<close> cells of the page components that talk to the backend themselves:
  the bookings page, the carousel page, and the two edit pages (of a carousel item and
  of a package) with their form, the validation errors shown for it (an object, kept
  as the list of its properties) and their three flags.
\<close>

record bookings_page =
  bk_bookings :: json
  bk_loading :: bool
  bk_error :: "string option"

record carousel_page =
  carouselItems :: json
  cp_loading :: bool
  cp_error :: "string option"

record edit_page =
  form :: json
  ep_errors :: "(string \<times> json) list"
  ep_loading :: bool
  ep_uploading :: bool
  ep_fetching :: bool

text \<open>
  The browser around the store: the store itself, localStorage (the store's own key,
  and every other key), the environment variable with the backend's address, the
  requests sent so far, the current location, the alerts shown, and the page
  components.
\<close>

record world =
  store :: admin_state
  auth_storage :: "persisted option"
  other_items :: "string \<Rightarrow> string option"
  env_api_base :: "string option"
  sent :: "request list"
  location :: string
  alerts :: "string list"
  bookingsPage :: bookings_page
  carouselPage :: carousel_page
  carouselEdit :: edit_page
  packageEdit :: edit_page

text \<open>
  \<open>set(partial)\<close> under the persist middleware: merge the partial state, then write
  what \<open>partialize\<close> keeps of the new state to localStorage.
\<close>

definition set_state :: "(admin_state \<Rightarrow> admin_state) \<Rightarrow> world \<Rightarrow> world" where
  "set_state f w =
     w\<lparr> store := f (store w), auth_storage := Some (partialize (f (store w))) \<rparr>"

definition API_BASE_URL :: "world \<Rightarrow> string" where
  "API_BASE_URL w = env_or (env_api_base w) ''http://localhost:3000''"

text \<open>The browser once request \<open>r\<close> has left it.\<close>

definition sending :: "request \<Rightarrow> world \<Rightarrow> world" where
  "sending r w = w\<lparr> sent := sent w @ [r] \<rparr>"

definition axios_request :: "backend \<Rightarrow> request \<Rightarrow> world \<Rightarrow> axios_result \<times> world" where
  "axios_request net r w = (axios_settle (net (sent w @ [r])), sending r w)"

definition bearer :: "json \<Rightarrow> string \<times> string" where
  "bearer tok = (''Authorization'', ''Bearer '' @ template_str tok)"

definition content_json :: "string \<times> string" where
  "content_json = (''Content-Type'', ''application/json'')"

definition err_message :: "js_exn \<Rightarrow> string \<Rightarrow> string" where
  "err_message e fallback = (case e of JsError m \<Rightarrow> m | NonError \<Rightarrow> fallback)"

subsection \<open>Health\<close>

definition fetchHealthStatus :: "backend \<Rightarrow> world \<Rightarrow> (js_exn + unit) \<times> world" where
  "fetchHealthStatus net w =
     (let w1 = set_state (\<lambda>s. s\<lparr> loading := True, error := None \<rparr>) w;
          tok = accessToken (store w1);
          hs = (if truthy tok then [bearer tok] else []);
          (r, w2) = axios_request net
             \<lparr> meth = GET, url = API_BASE_URL w1 @ ''/health'', headers = hs,
               body = NoBody, timeout = Some 5000 \<rparr> w1
      in case r of
           Resolved d \<Rightarrow>
             (Inr (), set_state (\<lambda>s. s\<lparr> healthData := d, loading := False \<rparr>) w2)
         | Rejected e \<Rightarrow>
             (Inr (), set_state (\<lambda>s. s\<lparr> error := Some (err_message e ''Failed to fetch health status''),
                                        loading := False \<rparr>) w2))"

subsection \<open>Authentication\<close>

text \<open>The body of \<open>login\<close>'s \<open>try\<close> block.\<close>

definition login_try :: "backend \<Rightarrow> string \<Rightarrow> string \<Rightarrow> world \<Rightarrow> (js_exn + unit) \<times> world" where
  "login_try net email password w =
     (let (r, w1) = axios_request net
             \<lparr> meth = POST, url = API_BASE_URL w @ ''/auth/login'', headers = [],
               body = JsonBody (JObj [(''email'', JStr email), (''password'', JStr password)]),
               timeout = None \<rparr> w
      in case r of
           Rejected e \<Rightarrow> (Inl e, w1)
         | Resolved d \<Rightarrow>
             (case get_prop d ''access_token'' of
                Inl e \<Rightarrow> (Inl e, w1)
              | Inr access_token \<Rightarrow>
                 (case get_prop d ''refresh_token'' of
                    Inl e \<Rightarrow> (Inl e, w1)
                  | Inr refresh_token \<Rightarrow>
                     (case get_prop d ''user'' of
                        Inl e \<Rightarrow> (Inl e, w1)
                      | Inr u \<Rightarrow>
                         (case get_prop u ''role'' of
                            Inl e \<Rightarrow> (Inl e, w1)
                          | Inr role \<Rightarrow>
                              if role \<noteq> JStr ''ADMIN''
                              then (Inl (JsError ''Access denied. Admin privileges required.''), w1)
                              else (Inr (),
                                    set_state (\<lambda>s. s\<lparr> user := u, accessToken := access_token,
                                                      refreshToken := refresh_token,
                                                      isLoading := False, authError := None \<rparr>) w1))))))"

definition login :: "backend \<Rightarrow> string \<Rightarrow> string \<Rightarrow> world \<Rightarrow> (js_exn + unit) \<times> world" where
  "login net email password w =
     (let w1 = set_state (\<lambda>s. s\<lparr> isLoading := True, authError := None \<rparr>) w
      in case login_try net email password w1 of
           (Inr x, w2) \<Rightarrow> (Inr x, w2)
         | (Inl e, w2) \<Rightarrow>
             (let errorMessage = err_message e ''Login failed''
              in (Inl (JsError errorMessage),
                  set_state (\<lambda>s. s\<lparr> authError := Some errorMessage, isLoading := False \<rparr>) w2)))"

definition logout :: "world \<Rightarrow> world" where
  "logout w =
     set_state (\<lambda>s. s\<lparr> user := JNull, accessToken := JNull, refreshToken := JNull,
                       authError := None \<rparr>) w"

text \<open>The body of \<open>refreshAccessToken\<close>'s \<open>try\<close> block.\<close>

definition refreshAccessToken_try :: "backend \<Rightarrow> json \<Rightarrow> world \<Rightarrow> (js_exn + json) \<times> world" where
  "refreshAccessToken_try net rt w =
     (let (r, w1) = axios_request net
             \<lparr> meth = POST, url = API_BASE_URL w @ ''/auth/refresh'', headers = [bearer rt],
               body = JsonBody (JObj []), timeout = None \<rparr> w
      in case r of
           Rejected e \<Rightarrow> (Inl e, w1)
         | Resolved d \<Rightarrow>
             (case get_prop d ''access_token'' of
                Inl e \<Rightarrow> (Inl e, w1)
              | Inr access_token \<Rightarrow>
                  (Inr access_token, set_state (\<lambda>s. s\<lparr> accessToken := access_token \<rparr>) w1)))"

definition refreshAccessToken :: "backend \<Rightarrow> world \<Rightarrow> (js_exn + json) \<times> world" where
  "refreshAccessToken net w =
     (let rt = refreshToken (store w)
      in if \<not> truthy rt then (Inl (JsError ''No refresh token available''), w)
         else case refreshAccessToken_try net rt w of
                (Inr t, w1) \<Rightarrow> (Inr t, w1)
              | (Inl e, w1) \<Rightarrow> (Inl (JsError ''Session expired. Please login again.''), logout w1))"

definition checkAuthStatus :: "world \<Rightarrow> bool" where
  "checkAuthStatus w =
     (let u = user (store w); tok = accessToken (store w)
      in truthy u \<and> truthy tok \<and> get_prop u ''role'' = Inr (JStr ''ADMIN''))"

subsection \<open>Packages\<close>

definition fetchPackages :: "backend \<Rightarrow> world \<Rightarrow> (js_exn + unit) \<times> world" where
  "fetchPackages net w =
     (let w1 = set_state (\<lambda>s. s\<lparr> packagesLoading := True, packagesError := None \<rparr>) w;
          (r, w2) = axios_request net
             \<lparr> meth = GET, url = API_BASE_URL w1 @ ''/packages'',
               headers = [bearer (accessToken (store w1))], body = NoBody, timeout = None \<rparr> w1;
          failed = set_state (\<lambda>s. s\<lparr> packagesError := Some ''Failed to fetch packages'',
                                       packagesLoading := False \<rparr>) w2
      in case r of
           Rejected e \<Rightarrow> (Inr (), failed)
         | Resolved d \<Rightarrow>
             (case get_prop d ''data'' of
                Inl e \<Rightarrow> (Inr (), failed)
              | Inr dd \<Rightarrow>
                  (Inr (), set_state (\<lambda>s. s\<lparr> packages := js_or dd d,
                                              packagesLoading := False \<rparr>) w2)))"

definition fetchPackageById :: "backend \<Rightarrow> string \<Rightarrow> world \<Rightarrow> (js_exn + json) \<times> world" where
  "fetchPackageById net ident w =
     (let (r, w1) = axios_request net
             \<lparr> meth = GET, url = API_BASE_URL w @ ''/packages/'' @ ident,
               headers = [bearer (accessToken (store w))], body = NoBody, timeout = None \<rparr> w
      in case r of
           Rejected e \<Rightarrow> (Inr JNull, w1)
         | Resolved d \<Rightarrow>
             (case get_prop d ''data'' of
                Inl e \<Rightarrow> (Inr JNull, w1)
              | Inr dd \<Rightarrow> (Inr (js_or dd d), w1)))"

definition createPackage :: "backend \<Rightarrow> json \<Rightarrow> world \<Rightarrow> (js_exn + json) \<times> world" where
  "createPackage net packageData w =
     (let (r, w1) = axios_request net
             \<lparr> meth = POST, url = API_BASE_URL w @ ''/packages'',
               headers = [bearer (accessToken (store w)), content_json],
               body = JsonBody packageData, timeout = None \<rparr> w
      in case r of
           Rejected e \<Rightarrow> (Inl (JsError ''Failed to create package''), w1)
         | Resolved d \<Rightarrow>
             (case fetchPackages net w1 of
                (Inl e, w2) \<Rightarrow> (Inl (JsError ''Failed to create package''), w2)
              | (Inr x, w2) \<Rightarrow> (Inr d, w2)))"

definition updatePackage :: "backend \<Rightarrow> string \<Rightarrow> json \<Rightarrow> world \<Rightarrow> (js_exn + json) \<times> world" where
  "updatePackage net ident packageData w =
     (let (r, w1) = axios_request net
             \<lparr> meth = PATCH, url = API_BASE_URL w @ ''/packages/'' @ ident,
               headers = [bearer (accessToken (store w)), content_json],
               body = JsonBody packageData, timeout = None \<rparr> w
      in case r of
           Rejected e \<Rightarrow> (Inl (JsError ''Failed to update package''), w1)
         | Resolved d \<Rightarrow>
             (case fetchPackages net w1 of
                (Inl e, w2) \<Rightarrow> (Inl (JsError ''Failed to update package''), w2)
              | (Inr x, w2) \<Rightarrow> (Inr d, w2)))"

definition deletePackage :: "backend \<Rightarrow> string \<Rightarrow> world \<Rightarrow> (js_exn + unit) \<times> world" where
  "deletePackage net ident w =
     (let (r, w1) = axios_request net
             \<lparr> meth = DELETE, url = API_BASE_URL w @ ''/packages/'' @ ident,
               headers = [bearer (accessToken (store w))], body = NoBody, timeout = None \<rparr> w
      in case r of
           Rejected e \<Rightarrow> (Inl (JsError ''Failed to delete package''), w1)
         | Resolved d \<Rightarrow>
             (case fetchPackages net w1 of
                (Inl e, w2) \<Rightarrow> (Inl (JsError ''Failed to delete package''), w2)
              | (Inr x, w2) \<Rightarrow> (Inr (), w2)))"

subsection \<open>Reviews\<close>

text \<open>
  The query string \<open>URLSearchParams\<close> builds from page and limit, with verified
  appended when it is given.
\<close>

definition review_params :: "int \<Rightarrow> int \<Rightarrow> bool option \<Rightarrow> string" where
  "review_params page limit verified =
     ''page='' @ show_int page @ ''&limit='' @ show_int limit @
     (case verified of
        None \<Rightarrow> []
      | Some b \<Rightarrow> ''&verified='' @ (if b then ''true'' else ''false''))"

text \<open>
  The tail both review fetches share: store the two fields of the response, or the
  error's message.
\<close>

definition store_reviews :: "axios_result \<Rightarrow> string \<Rightarrow> world \<Rightarrow> (js_exn + unit) \<times> world" where
  "store_reviews r fallback w =
     (let failed = (\<lambda>e. set_state (\<lambda>s. s\<lparr> reviewsError := Some (err_message e fallback),
                                           reviewsLoading := False \<rparr>) w)
      in case r of
           Rejected e \<Rightarrow> (Inr (), failed e)
         | Resolved d \<Rightarrow>
             (case get_prop d ''data'' of
                Inl e \<Rightarrow> (Inr (), failed e)
              | Inr rs \<Rightarrow>
                 (case get_prop d ''pagination'' of
                    Inl e \<Rightarrow> (Inr (), failed e)
                  | Inr pg \<Rightarrow>
                      (Inr (), set_state (\<lambda>s. s\<lparr> reviews := rs, reviewsPagination := pg,
                                                  reviewsLoading := False \<rparr>) w))))"

text \<open>An argument left out (\<open>None\<close>) takes its default: page 1, limit 10.\<close>

definition fetchAllReviews ::
  "backend \<Rightarrow> int option \<Rightarrow> int option \<Rightarrow> bool option \<Rightarrow> world \<Rightarrow> (js_exn + unit) \<times> world" where
  "fetchAllReviews net page limit verified w =
     (let pg = (case page of None \<Rightarrow> 1 | Some p \<Rightarrow> p);
          lm = (case limit of None \<Rightarrow> 10 | Some l \<Rightarrow> l);
          w1 = set_state (\<lambda>s. s\<lparr> reviewsLoading := True, reviewsError := None \<rparr>) w;
          (r, w2) = axios_request net
             \<lparr> meth = GET,
               url = API_BASE_URL w1 @ ''/admin/reviews?'' @ review_params pg lm verified,
               headers = [bearer (accessToken (store w1))], body = NoBody, timeout = None \<rparr> w1
      in store_reviews r ''Failed to fetch reviews'' w2)"

definition fetchPackageReviews ::
  "backend \<Rightarrow> string \<Rightarrow> int option \<Rightarrow> int option \<Rightarrow> world \<Rightarrow> (js_exn + unit) \<times> world" where
  "fetchPackageReviews net packageId page limit w =
     (let pg = (case page of None \<Rightarrow> 1 | Some p \<Rightarrow> p);
          lm = (case limit of None \<Rightarrow> 10 | Some l \<Rightarrow> l);
          w1 = set_state (\<lambda>s. s\<lparr> reviewsLoading := True, reviewsError := None \<rparr>) w;
          (r, w2) = axios_request net
             \<lparr> meth = GET,
               url = API_BASE_URL w1 @ ''/packages/'' @ packageId @ ''/reviews?page='' @
                     show_int pg @ ''&limit='' @ show_int lm,
               headers = [bearer (accessToken (store w1))], body = NoBody, timeout = None \<rparr> w1
      in store_reviews r ''Failed to fetch package reviews'' w2)"

definition approveReview :: "backend \<Rightarrow> string \<Rightarrow> world \<Rightarrow> (js_exn + unit) \<times> world" where
  "approveReview net reviewId w =
     (let (r, w1) = axios_request net
             \<lparr> meth = PATCH, url = API_BASE_URL w @ ''/admin/reviews/'' @ reviewId @ ''/approve'',
               headers = [bearer (accessToken (store w))], body = JsonBody (JObj []),
               timeout = None \<rparr> w
      in case r of
           Rejected e \<Rightarrow> (Inl (JsError ''Failed to approve review''), w1)
         | Resolved d \<Rightarrow>
             (case fetchAllReviews net None None None w1 of
                (Inl e, w2) \<Rightarrow> (Inl (JsError ''Failed to approve review''), w2)
              | (Inr x, w2) \<Rightarrow> (Inr (), w2)))"

definition deleteReview :: "backend \<Rightarrow> string \<Rightarrow> world \<Rightarrow> (js_exn + unit) \<times> world" where
  "deleteReview net reviewId w =
     (let (r, w1) = axios_request net
             \<lparr> meth = DELETE, url = API_BASE_URL w @ ''/admin/reviews/'' @ reviewId,
               headers = [bearer (accessToken (store w))], body = NoBody, timeout = None \<rparr> w
      in case r of
           Rejected e \<Rightarrow> (Inl (JsError ''Failed to delete review''), w1)
         | Resolved d \<Rightarrow>
             (case fetchAllReviews net None None None w1 of
                (Inl e, w2) \<Rightarrow> (Inl (JsError ''Failed to delete review''), w2)
              | (Inr x, w2) \<Rightarrow> (Inr (), w2)))"

subsection \<open>Persistence\<close>

text \<open>
  A new session (a page load): the store is created with its initial state and the
  persist middleware merges into it what it finds under its key in localStorage.
  A field that held \<open>undefined\<close> is not written by \<open>JSON.stringify\<close>, so it comes
  back with its initial value. Component state starts afresh; localStorage, the
  environment and the backend's history stay.
\<close>

definition rehydrate :: "persisted option \<Rightarrow> admin_state" where
  "rehydrate p =
     (case p of
        None \<Rightarrow> initial_state
      | Some q \<Rightarrow>
          initial_state
            \<lparr> user := (if p_user q = JUndefined then user initial_state else p_user q),
              accessToken :=
                (if p_accessToken q = JUndefined then accessToken initial_state
                 else p_accessToken q),
              refreshToken :=
                (if p_refreshToken q = JUndefined then refreshToken initial_state
                 else p_refreshToken q) \<rparr>)"

definition initial_bookings_page :: bookings_page where
  "initial_bookings_page = \<lparr> bk_bookings = JArr [], bk_loading = True, bk_error = None \<rparr>"

definition initial_carousel_page :: carousel_page where
  "initial_carousel_page = \<lparr> carouselItems = JArr [], cp_loading = True, cp_error = None \<rparr>"

definition initial_carousel_form :: json where
  "initial_carousel_form =
     JObj [(''title'', JStr []), (''description'', JStr []), (''imageUrl'', JStr []),
           (''actionType'', JStr ''INTERNAL''), (''actionValue'', JStr []),
           (''isActive'', JBool True), (''sortOrder'', JNum 0)]"

definition initial_package_form :: json where
  "initial_package_form =
     JObj [(''title'', JStr []), (''description'', JStr []), (''location'', JStr []),
           (''price'', JNum 0), (''duration'', JNum 1), (''category'', JStr ''ADVENTURE''),
           (''difficulty'', JStr ''EASY''), (''coverImage'', JStr []), (''images'', JArr []),
           (''highlights'', JArr []),
           (''itinerary'',
              JArr [JObj [(''day'', JNum 1), (''title'', JStr []), (''description'', JStr [])]]),
           (''included'', JArr []), (''excluded'', JArr [])]"

definition initial_edit_page :: "json \<Rightarrow> edit_page" where
  "initial_edit_page f =
     \<lparr> form = f, ep_errors = [], ep_loading = False, ep_uploading = False,
       ep_fetching = True \<rparr>"

definition new_session :: "string \<Rightarrow> world \<Rightarrow> world" where
  "new_session path w =
     w\<lparr> store := rehydrate (auth_storage w), location := path, alerts := [],
        bookingsPage := initial_bookings_page, carouselPage := initial_carousel_page,
        carouselEdit := initial_edit_page initial_carousel_form,
        packageEdit := initial_edit_page initial_package_form \<rparr>"

text \<open>The browser at the first visit: nothing under the store's key yet.\<close>

definition first_visit :: "string option \<Rightarrow> (string \<Rightarrow> string option) \<Rightarrow> string \<Rightarrow> world" where
  "first_visit env items path =
     \<lparr> store = initial_state, auth_storage = None, other_items = items, env_api_base = env,
       sent = [], location = path, alerts = [],
       bookingsPage = initial_bookings_page, carouselPage = initial_carousel_page,
       carouselEdit = initial_edit_page initial_carousel_form,
       packageEdit = initial_edit_page initial_package_form \<rparr>"

section \<open>The bookings page\<close>

text \<open>
  \<open>localStorage.getItem(k)\<close> for a key other than the store's own: the string stored
  there, or null.
\<close>

definition localStorage_getItem :: "world \<Rightarrow> string \<Rightarrow> json" where
  "localStorage_getItem w k = (case other_items w k of None \<Rightarrow> JNull | Some s \<Rightarrow> JStr s)"

definition fetch_request :: "backend \<Rightarrow> request \<Rightarrow> world \<Rightarrow> reply \<times> world" where
  "fetch_request net r w = (net (sent w @ [r]), sending r w)"

definition bookings_baseUrl :: "world \<Rightarrow> string" where
  "bookings_baseUrl w = env_or (env_api_base w) ''http://localhost:3006''"

definition setLoading :: "bool \<Rightarrow> world \<Rightarrow> world" where
  "setLoading b w = w\<lparr> bookingsPage := (bookingsPage w)\<lparr> bk_loading := b \<rparr> \<rparr>"

definition setError :: "string option \<Rightarrow> world \<Rightarrow> world" where
  "setError e w = w\<lparr> bookingsPage := (bookingsPage w)\<lparr> bk_error := e \<rparr> \<rparr>"

definition setBookings :: "json \<Rightarrow> world \<Rightarrow> world" where
  "setBookings d w = w\<lparr> bookingsPage := (bookingsPage w)\<lparr> bk_bookings := d \<rparr> \<rparr>"

definition alert :: "string \<Rightarrow> world \<Rightarrow> world" where
  "alert m w = w\<lparr> alerts := alerts w @ [m] \<rparr>"

definition navigate :: "string \<Rightarrow> world \<Rightarrow> world" where
  "navigate path w = w\<lparr> location := path \<rparr>"

text \<open>
  The body of \<open>fetchBookings\<close>'s \<open>try\<close> block. \<open>Inr ()\<close> is reached by the early
  return after a 401 as well as by the end of the block.
\<close>

definition fetchBookings_try :: "backend \<Rightarrow> world \<Rightarrow> (js_exn + unit) \<times> world" where
  "fetchBookings_try net w =
     (let w1 = setLoading True w;
          token = localStorage_getItem w1 ''adminToken'';
          baseUrl = bookings_baseUrl w1;
          (rp, w2) = fetch_request net
             \<lparr> meth = GET, url = baseUrl @ ''/bookings'',
               headers = [bearer token, content_json], body = NoBody, timeout = None \<rparr> w1
      in case rp of
           NetFail e \<Rightarrow> (Inl e, w2)
         | Reply st d \<Rightarrow>
             if \<not> status_ok st then
               (if st = 401 then (Inr (), navigate ''/admin-login'' (logout w2))
                else (Inl (JsError ''Failed to fetch bookings''), w2))
             else (Inr (), setBookings d w2))"

definition fetchBookings :: "backend \<Rightarrow> world \<Rightarrow> (js_exn + unit) \<times> world" where
  "fetchBookings net w =
     (case fetchBookings_try net w of
        (Inr x, w1) \<Rightarrow> (Inr (), setLoading False w1)
      | (Inl e, w1) \<Rightarrow>
          (Inr (), setLoading False (setError (Some (err_message e ''An error occurred'')) w1)))"

text \<open>The \<open>switch\<close> that maps a status to its endpoint.\<close>

definition status_endpoint :: "string \<Rightarrow> string \<Rightarrow> string \<Rightarrow> js_exn + string" where
  "status_endpoint baseUrl bookingId status =
     (if status = ''CONFIRMED'' then Inr (baseUrl @ ''/bookings/'' @ bookingId @ ''/confirm'')
      else if status = ''COMPLETED'' then Inr (baseUrl @ ''/bookings/'' @ bookingId @ ''/complete'')
      else if status = ''CANCELLED'' then Inr (baseUrl @ ''/bookings/'' @ bookingId @ ''/cancel'')
      else Inl (JsError ''Invalid status''))"

text \<open>
  The body of \<open>updateBookingStatus\<close>'s \<open>try\<close> block. The refetch at its end is not
  awaited; it catches its own errors, and is run here to its end.
\<close>

definition updateBookingStatus_try ::
  "backend \<Rightarrow> string \<Rightarrow> string \<Rightarrow> world \<Rightarrow> (js_exn + unit) \<times> world" where
  "updateBookingStatus_try net bookingId status w =
     (let token = localStorage_getItem w ''adminToken'';
          baseUrl = bookings_baseUrl w
      in case status_endpoint baseUrl bookingId status of
           Inl e \<Rightarrow> (Inl e, w)
         | Inr endpoint \<Rightarrow>
             (let (rp, w1) = fetch_request net
                    \<lparr> meth = PATCH, url = endpoint, headers = [bearer token, content_json],
                      body = NoBody, timeout = None \<rparr> w
              in case rp of
                   NetFail e \<Rightarrow> (Inl e, w1)
                 | Reply st d \<Rightarrow>
                     if \<not> status_ok st then (Inl (JsError ''Failed to update booking status''), w1)
                     else (Inr (), snd (fetchBookings net w1))))"

definition updateBookingStatus ::
  "backend \<Rightarrow> string \<Rightarrow> string \<Rightarrow> world \<Rightarrow> (js_exn + unit) \<times> world" where
  "updateBookingStatus net bookingId status w =
     (case updateBookingStatus_try net bookingId status w of
        (Inr x, w1) \<Rightarrow> (Inr (), w1)
      | (Inl e, w1) \<Rightarrow> (Inr (), alert ''Failed to update booking status'' w1))"

text \<open>\<open>confirmed\<close> is the answer the user gives to the \<open>confirm\<close> dialog.\<close>

definition deleteBooking :: "backend \<Rightarrow> bool \<Rightarrow> string \<Rightarrow> world \<Rightarrow> (js_exn + unit) \<times> world" where
  "deleteBooking net confirmed bookingId w =
     (if \<not> confirmed then (Inr (), w)
      else
        let token = localStorage_getItem w ''adminToken'';
            baseUrl = bookings_baseUrl w;
            (rp, w1) = fetch_request net
               \<lparr> meth = DELETE, url = baseUrl @ ''/bookings/'' @ bookingId,
                 headers = [bearer token, content_json], body = NoBody, timeout = None \<rparr> w
        in case rp of
             NetFail e \<Rightarrow> (Inr (), alert ''Failed to delete booking'' w1)
           | Reply st d \<Rightarrow>
               if \<not> status_ok st then (Inr (), alert ''Failed to delete booking'' w1)
               else (Inr (), snd (fetchBookings net w1)))"

text \<open>The status a \<open>Booking\<close> may have, and the string that stands for it.\<close>

datatype booking_status = PENDING | CONFIRMED | COMPLETED | CANCELLED

fun status_name :: "booking_status \<Rightarrow> string" where
  "status_name PENDING = ''PENDING''"
| "status_name CONFIRMED = ''CONFIRMED''"
| "status_name COMPLETED = ''COMPLETED''"
| "status_name CANCELLED = ''CANCELLED''"

section \<open>The carousel pages\<close>

text \<open>
  These components take \<open>accessToken\<close> from the store's hook when they render; the
  value they send is read here from the store at the moment of the call.
\<close>

definition carousel_baseUrl :: "world \<Rightarrow> string" where
  "carousel_baseUrl w = env_or (env_api_base w) ''http://localhost:3002''"

definition setCarouselLoading :: "bool \<Rightarrow> world \<Rightarrow> world" where
  "setCarouselLoading b w = w\<lparr> carouselPage := (carouselPage w)\<lparr> cp_loading := b \<rparr> \<rparr>"

definition setCarouselError :: "string option \<Rightarrow> world \<Rightarrow> world" where
  "setCarouselError e w = w\<lparr> carouselPage := (carouselPage w)\<lparr> cp_error := e \<rparr> \<rparr>"

definition setCarouselItems :: "json \<Rightarrow> world \<Rightarrow> world" where
  "setCarouselItems d w = w\<lparr> carouselPage := (carouselPage w)\<lparr> carouselItems := d \<rparr> \<rparr>"

definition fetchCarouselItems_try :: "backend \<Rightarrow> world \<Rightarrow> (js_exn + unit) \<times> world" where
  "fetchCarouselItems_try net w =
     (let w1 = setCarouselLoading True w;
          (rp, w2) = fetch_request net
             \<lparr> meth = GET, url = carousel_baseUrl w1 @ ''/carousel/admin'',
               headers = [bearer (accessToken (store w1))], body = NoBody, timeout = None \<rparr> w1
      in case rp of
           NetFail e \<Rightarrow> (Inl e, w2)
         | Reply st d \<Rightarrow>
             if \<not> status_ok st then (Inl (JsError ''Failed to fetch carousel items''), w2)
             else (case get_prop d ''data'' of
                     Inl e \<Rightarrow> (Inl e, w2)
                   | Inr dd \<Rightarrow> (Inr (), setCarouselItems (js_or dd (JArr [])) w2)))"

definition fetchCarouselItems :: "backend \<Rightarrow> world \<Rightarrow> (js_exn + unit) \<times> world" where
  "fetchCarouselItems net w =
     (case fetchCarouselItems_try net w of
        (Inr x, w1) \<Rightarrow> (Inr (), setCarouselLoading False w1)
      | (Inl e, w1) \<Rightarrow>
          (Inr (), setCarouselLoading False
                     (setCarouselError (Some ''Failed to fetch carousel items'') w1)))"

text \<open>\<open>confirmed\<close> is the answer to the \<open>confirm\<close> dialog, which alone uses the title.\<close>

definition handleDelete ::
  "backend \<Rightarrow> bool \<Rightarrow> string \<Rightarrow> world \<Rightarrow> (js_exn + unit) \<times> world" where
  "handleDelete net confirmed ident w =
     (if \<not> confirmed then (Inr (), w)
      else
        let (rp, w1) = fetch_request net
               \<lparr> meth = DELETE, url = carousel_baseUrl w @ ''/carousel/'' @ ident,
                 headers = [bearer (accessToken (store w))], body = NoBody, timeout = None \<rparr> w
        in case rp of
             NetFail e \<Rightarrow> (Inr (), alert ''Failed to delete carousel item'' w1)
           | Reply st d \<Rightarrow>
               if \<not> status_ok st then (Inr (), alert ''Failed to delete carousel item'' w1)
               else (Inr (), snd (fetchCarouselItems net
                                    (alert ''Carousel item deleted successfully'' w1))))"

definition handleToggleActive ::
  "backend \<Rightarrow> string \<Rightarrow> bool \<Rightarrow> world \<Rightarrow> (js_exn + unit) \<times> world" where
  "handleToggleActive net ident currentStatus w =
     (let (rp, w1) = fetch_request net
             \<lparr> meth = PATCH, url = carousel_baseUrl w @ ''/carousel/'' @ ident,
               headers = [bearer (accessToken (store w)), content_json],
               body = JsonBody (JObj [(''isActive'', JBool (\<not> currentStatus))]),
               timeout = None \<rparr> w
      in case rp of
           NetFail e \<Rightarrow> (Inr (), alert ''Failed to update carousel item'' w1)
         | Reply st d \<Rightarrow>
             if \<not> status_ok st then (Inr (), alert ''Failed to update carousel item'' w1)
             else (Inr (), snd (fetchCarouselItems net
                                  (alert (''Carousel item '' @
                                          (if \<not> currentStatus then ''activated'' else ''deactivated'') @
                                          '' successfully'') w1))))"

text \<open>\<open>v.k\<close> where \<open>v\<close> is known to be truthy, so that the read cannot throw.\<close>

definition field :: "json \<Rightarrow> string \<Rightarrow> json" where
  "field v k = (case get_prop v k of Inl e \<Rightarrow> JUndefined | Inr x \<Rightarrow> x)"

definition setFetchingItem :: "bool \<Rightarrow> world \<Rightarrow> world" where
  "setFetchingItem b w = w\<lparr> carouselEdit := (carouselEdit w)\<lparr> ep_fetching := b \<rparr> \<rparr>"

definition setCarouselForm :: "json \<Rightarrow> world \<Rightarrow> world" where
  "setCarouselForm f w = w\<lparr> carouselEdit := (carouselEdit w)\<lparr> form := f \<rparr> \<rparr>"

definition setCarouselEditLoading :: "bool \<Rightarrow> world \<Rightarrow> world" where
  "setCarouselEditLoading b w = w\<lparr> carouselEdit := (carouselEdit w)\<lparr> ep_loading := b \<rparr> \<rparr>"

definition loadCarouselItem_try :: "backend \<Rightarrow> string \<Rightarrow> world \<Rightarrow> (js_exn + unit) \<times> world" where
  "loadCarouselItem_try net carouselId w =
     (let w1 = setFetchingItem True w;
          (rp, w2) = fetch_request net
             \<lparr> meth = GET, url = carousel_baseUrl w1 @ ''/carousel/'' @ carouselId,
               headers = [bearer (accessToken (store w1))], body = NoBody, timeout = None \<rparr> w1
      in case rp of
           NetFail e \<Rightarrow> (Inl e, w2)
         | Reply st d \<Rightarrow>
             if \<not> status_ok st then (Inl (JsError ''Failed to fetch carousel item''), w2)
             else (case get_prop d ''data'' of
                     Inl e \<Rightarrow> (Inl e, w2)
                   | Inr item \<Rightarrow>
                       if truthy item then
                         (Inr (), setCarouselForm
                            (JObj [(''title'', field item ''title''),
                                   (''description'', js_or (field item ''description'') (JStr [])),
                                   (''imageUrl'', field item ''imageUrl''),
                                   (''actionType'', field item ''actionType''),
                                   (''actionValue'', field item ''actionValue''),
                                   (''isActive'', field item ''isActive''),
                                   (''sortOrder'', field item ''sortOrder'')]) w2)
                       else (Inr (), navigate ''/carousel'' (alert ''Carousel item not found'' w2))))"

definition loadCarouselItem :: "backend \<Rightarrow> string \<Rightarrow> world \<Rightarrow> (js_exn + unit) \<times> world" where
  "loadCarouselItem net carouselId w =
     (case loadCarouselItem_try net carouselId w of
        (Inr x, w1) \<Rightarrow> (Inr (), setFetchingItem False w1)
      | (Inl e, w1) \<Rightarrow>
          (Inr (), setFetchingItem False
                     (navigate ''/carousel'' (alert ''Failed to load carousel item data'' w1))))"

text \<open>
  \<open>uploadImage\<close>, which the carousel edit page and the three package forms each
  define with the same body; \<open>fallback\<close> is the address the page falls back to when
  the environment gives none. It rethrows what it catches.
\<close>

definition uploadImage :: "string \<Rightarrow> backend \<Rightarrow> string \<Rightarrow> world \<Rightarrow> (js_exn + string) \<times> world" where
  "uploadImage fallback net file w =
     (let baseUrl = env_or (env_api_base w) fallback;
          (rp, w1) = fetch_request net
             \<lparr> meth = POST, url = baseUrl @ ''/upload/image'',
               headers = [bearer (accessToken (store w))], body = FormData file,
               timeout = None \<rparr> w
      in case rp of
           NetFail e \<Rightarrow> (Inl e, w1)
         | Reply st d \<Rightarrow>
             if \<not> status_ok st then (Inl (JsError ''Upload failed''), w1)
             else (case get_prop d ''data'' of
                     Inl e \<Rightarrow> (Inl e, w1)
                   | Inr dd \<Rightarrow>
                      (case get_prop dd ''url'' of
                         Inl e \<Rightarrow> (Inl e, w1)
                       | Inr u \<Rightarrow> (Inr (baseUrl @ template_str u), w1))))"

text \<open>
  \<open>{ ...prev, [k]: v }\<close> for an object \<open>prev\<close>: the property is replaced where it
  stands, or added at the end. A form is always an object; of null, undefined, a
  number or a boolean the spread keeps nothing, and only the new property is left.
\<close>

fun put_prop :: "string \<Rightarrow> json \<Rightarrow> (string \<times> json) list \<Rightarrow> (string \<times> json) list" where
  "put_prop k v [] = [(k, v)]"
| "put_prop k v ((k', v') # kvs) =
     (if k' = k then (k, v) # kvs else (k', v') # put_prop k v kvs)"

definition spread_with :: "json \<Rightarrow> string \<Rightarrow> json \<Rightarrow> json" where
  "spread_with prev k v = (case prev of JObj kvs \<Rightarrow> JObj (put_prop k v kvs) | other \<Rightarrow> JObj [(k, v)])"

text \<open>
  What \<open>updateForm\<close> does to an edit page: it sets the field of the form, and when the
  errors hold a truthy entry for the field it sets that entry to undefined.
\<close>

definition update_edit_page :: "string \<Rightarrow> json \<Rightarrow> edit_page \<Rightarrow> edit_page" where
  "update_edit_page fld v p =
     p\<lparr> form := spread_with (form p) fld v,
        ep_errors :=
          (case map_of (ep_errors p) fld of
             None \<Rightarrow> ep_errors p
           | Some e \<Rightarrow> if truthy e then put_prop fld JUndefined (ep_errors p) else ep_errors p) \<rparr>"

definition updateForm :: "string \<Rightarrow> json \<Rightarrow> world \<Rightarrow> world" where
  "updateForm fld v w = w\<lparr> carouselEdit := update_edit_page fld v (carouselEdit w) \<rparr>"

definition setUploadingImage :: "bool \<Rightarrow> world \<Rightarrow> world" where
  "setUploadingImage b w = w\<lparr> carouselEdit := (carouselEdit w)\<lparr> ep_uploading := b \<rparr> \<rparr>"

definition setErrors :: "(string \<times> json) list \<Rightarrow> world \<Rightarrow> world" where
  "setErrors es w = w\<lparr> carouselEdit := (carouselEdit w)\<lparr> ep_errors := es \<rparr> \<rparr>"

text \<open>
  \<open>handleImageUpload\<close> of the carousel edit page; \<open>file\<close> is the first file of the
  input, if it has one.
\<close>

definition handleImageUpload ::
  "backend \<Rightarrow> string option \<Rightarrow> world \<Rightarrow> (js_exn + unit) \<times> world" where
  "handleImageUpload net file w =
     (case file of
        None \<Rightarrow> (Inr (), w)
      | Some f \<Rightarrow>
          (case uploadImage ''http://localhost:3002'' net f (setUploadingImage True w) of
             (Inr imageUrl, w1) \<Rightarrow>
               (Inr (), setUploadingImage False (updateForm ''imageUrl'' (JStr imageUrl) w1))
           | (Inl e, w1) \<Rightarrow>
               (Inr (), setUploadingImage False (alert ''Failed to upload image'' w1))))"

text \<open>
  \<open>handleSubmit\<close> of the carousel edit page. \<open>newErrors\<close> is the object
  \<open>validateForm\<close> builds for the form (the rules it applies are not modelled):
  \<open>validateForm\<close> stores it and answers whether it has no key.
\<close>

definition handleSubmit ::
  "backend \<Rightarrow> (string \<times> json) list \<Rightarrow> string \<Rightarrow> world \<Rightarrow> (js_exn + unit) \<times> world" where
  "handleSubmit net newErrors carouselId w =
     (let w0 = setErrors newErrors w
      in if newErrors \<noteq> [] then (Inr (), w0)
         else
           let w1 = setCarouselEditLoading True w0;
               (rp, w2) = fetch_request net
                  \<lparr> meth = PATCH, url = carousel_baseUrl w1 @ ''/carousel/'' @ carouselId,
                    headers = [bearer (accessToken (store w1)), content_json],
                    body = JsonBody (form (carouselEdit w1)), timeout = None \<rparr> w1;
               failed = alert ''Failed to update carousel item. Please try again.'' w2
           in case rp of
                NetFail e \<Rightarrow> (Inr (), setCarouselEditLoading False failed)
              | Reply st d \<Rightarrow>
                  if \<not> status_ok st then (Inr (), setCarouselEditLoading False failed)
                  else (Inr (), setCarouselEditLoading False
                                  (navigate ''/carousel''
                                     (alert ''Carousel item updated successfully!'' w2))))"

section \<open>The package edit page\<close>

text \<open>
  \<open>packages.find((pkg) => pkg.id === packageId)\<close>: the first element whose id is the
  string, undefined when there is none; a null element makes the read of its id throw.
\<close>

fun find_by_id :: "json list \<Rightarrow> string \<Rightarrow> js_exn + json" where
  "find_by_id [] k = Inr JUndefined"
| "find_by_id (p # ps) k =
     (case get_prop p ''id'' of
        Inl e \<Rightarrow> Inl e
      | Inr v \<Rightarrow> if v = JStr k then Inr p else find_by_id ps k)"

definition setFetchingPackage :: "bool \<Rightarrow> world \<Rightarrow> world" where
  "setFetchingPackage b w = w\<lparr> packageEdit := (packageEdit w)\<lparr> ep_fetching := b \<rparr> \<rparr>"

definition setPackageForm :: "json \<Rightarrow> world \<Rightarrow> world" where
  "setPackageForm f w = w\<lparr> packageEdit := (packageEdit w)\<lparr> form := f \<rparr> \<rparr>"

definition package_form_of :: "json \<Rightarrow> json" where
  "package_form_of packageData =
     JObj [(''title'', field packageData ''title''),
           (''description'', field packageData ''description''),
           (''location'', field packageData ''location''),
           (''price'', field packageData ''price''),
           (''duration'', field packageData ''duration''),
           (''category'', field packageData ''category''),
           (''difficulty'', field packageData ''difficulty''),
           (''coverImage'', js_or (field packageData ''coverImage'') (JStr [])),
           (''images'', JArr []), (''highlights'', JArr []),
           (''itinerary'',
              JArr [JObj [(''day'', JNum 1), (''title'', JStr []), (''description'', JStr [])]]),
           (''included'', JArr []), (''excluded'', JArr [])]"

text \<open>
  The body of \<open>loadPackageData\<close>'s \<open>try\<close> block. When the store's \<open>packages\<close> is not
  an array, \<open>packages.find\<close> is not a function and the call throws.
\<close>

definition loadPackageData_try :: "backend \<Rightarrow> string \<Rightarrow> world \<Rightarrow> (js_exn + unit) \<times> world" where
  "loadPackageData_try net packageId w =
     (let w1 = setFetchingPackage True w
      in case packages (store w1) of
           JArr ps \<Rightarrow>
             (case find_by_id ps packageId of
                Inl e \<Rightarrow> (Inl e, w1)
              | Inr found \<Rightarrow>
                  (case (if \<not> truthy found then
                           (case fetchPackageById net packageId w1 of
                              (Inr fetched, w') \<Rightarrow> (Inr (js_or fetched JUndefined), w')
                            | (Inl e, w') \<Rightarrow> (Inl e, w'))
                         else (Inr found, w1)) of
                     (Inl e, w2) \<Rightarrow> (Inl e, w2)
                   | (Inr packageData, w2) \<Rightarrow>
                       if truthy packageData
                       then (Inr (), setPackageForm (package_form_of packageData) w2)
                       else (Inr (), navigate ''/packages'' (alert ''Package not found'' w2))))
         | other \<Rightarrow> (Inl (JsError ''packages.find is not a function''), w1))"

definition loadPackageData :: "backend \<Rightarrow> string \<Rightarrow> world \<Rightarrow> (js_exn + unit) \<times> world" where
  "loadPackageData net packageId w =
     (case loadPackageData_try net packageId w of
        (Inr x, w1) \<Rightarrow> (Inr (), setFetchingPackage False w1)
      | (Inl e, w1) \<Rightarrow>
          (Inr (), setFetchingPackage False
                     (navigate ''/packages'' (alert ''Failed to load package data'' w1))))"

text \<open>The package edit page's own \<open>updateForm\<close> and setters.\<close>

definition updateForm_package :: "string \<Rightarrow> json \<Rightarrow> world \<Rightarrow> world" where
  "updateForm_package fld v w = w\<lparr> packageEdit := update_edit_page fld v (packageEdit w) \<rparr>"

definition setUploadingImage_package :: "bool \<Rightarrow> world \<Rightarrow> world" where
  "setUploadingImage_package b w =
     w\<lparr> packageEdit := (packageEdit w)\<lparr> ep_uploading := b \<rparr> \<rparr>"

definition setErrors_package :: "(string \<times> json) list \<Rightarrow> world \<Rightarrow> world" where
  "setErrors_package es w = w\<lparr> packageEdit := (packageEdit w)\<lparr> ep_errors := es \<rparr> \<rparr>"

definition setLoading_package :: "bool \<Rightarrow> world \<Rightarrow> world" where
  "setLoading_package b w = w\<lparr> packageEdit := (packageEdit w)\<lparr> ep_loading := b \<rparr> \<rparr>"

definition handleCoverImageUpload ::
  "backend \<Rightarrow> string option \<Rightarrow> world \<Rightarrow> (js_exn + unit) \<times> world" where
  "handleCoverImageUpload net file w =
     (case file of
        None \<Rightarrow> (Inr (), w)
      | Some f \<Rightarrow>
          (case uploadImage ''http://localhost:3002'' net f (setUploadingImage_package True w) of
             (Inr imageUrl, w1) \<Rightarrow>
               (Inr (), setUploadingImage_package False
                          (updateForm_package ''coverImage'' (JStr imageUrl) w1))
           | (Inl e, w1) \<Rightarrow>
               (Inr (), setUploadingImage_package False (alert ''Failed to upload image'' w1))))"

text \<open>
  \<open>handleSubmit\<close> of the package edit page, with \<open>newErrors\<close> as for the carousel
  edit page. It sends eight fields of the form through the store's \<open>updatePackage\<close>.
\<close>

definition handleSubmit_package ::
  "backend \<Rightarrow> (string \<times> json) list \<Rightarrow> string \<Rightarrow> world \<Rightarrow> (js_exn + unit) \<times> world" where
  "handleSubmit_package net newErrors packageId w =
     (let w0 = setErrors_package newErrors w
      in if newErrors \<noteq> [] then (Inr (), w0)
         else
           let w1 = setLoading_package True w0;
               f = form (packageEdit w1);
               updateData =
                 JObj [(''title'', field f ''title''), (''description'', field f ''description''),
                       (''location'', field f ''location''), (''price'', field f ''price''),
                       (''duration'', field f ''duration''), (''category'', field f ''category''),
                       (''difficulty'', field f ''difficulty''),
                       (''coverImage'', field f ''coverImage'')]
           in case updatePackage net packageId updateData w1 of
                (Inr d, w2) \<Rightarrow>
                  (Inr (), setLoading_package False
                             (navigate ''/packages'' (alert ''Package updated successfully!'' w2)))
              | (Inl e, w2) \<Rightarrow>
                  (Inr (), setLoading_package False
                             (alert ''Failed to update package. Please try again.'' w2)))"

section \<open>The reviews page\<close>

text \<open>
  A string here is the list of its UTF-16 code units, which is what its length counts.
  The longest string the engine makes (V8's limit on a 64-bit machine; the language
  allows no more than \<open>2^53 - 1\<close>):
\<close>

definition max_string_length :: int where
  "max_string_length = 536870888"

text \<open>
  \<open>s.repeat(n)\<close> for an integer count: a RangeError when the count is negative, and
  when the result would be longer than a string can be.
\<close>

definition js_repeat :: "nat list \<Rightarrow> int \<Rightarrow> js_exn + nat list" where
  "js_repeat s n =
     (if n < 0 then Inl (JsError (''Invalid count value: '' @ show_int n))
      else if max_string_length < int (length s) * n then Inl (JsError ''Invalid string length'')
      else Inr (concat (replicate (nat n) s)))"

text \<open>
  The two string literals of \<open>renderStars\<close> as the source file holds them. Each is
  three characters: U+201A U+2260 U+00EA and U+201A U+00F2 U+00DC (what the UTF-8
  bytes of the stars U+2B50 and U+2606 give when read in the Mac Roman encoding and
  stored again as UTF-8).
\<close>

definition filled_literal :: "nat list" where
  "filled_literal = [8218, 8800, 234]"

definition hollow_literal :: "nat list" where
  "hollow_literal = [8218, 242, 220]"

text \<open>The code units of the two stars, U+2B50 and U+2606.\<close>

definition WHITE_MEDIUM_STAR :: nat where
  "WHITE_MEDIUM_STAR = 11088"

definition WHITE_STAR :: nat where
  "WHITE_STAR = 9734"

definition renderStars :: "int \<Rightarrow> js_exn + nat list" where
  "renderStars rating =
     (case js_repeat filled_literal rating of
        Inl e \<Rightarrow> Inl e
      | Inr filled \<Rightarrow>
          (case js_repeat hollow_literal (5 - rating) of
             Inl e \<Rightarrow> Inl e
           | Inr hollow \<Rightarrow> Inr (filled @ hollow)))"

section \<open>Sessions\<close>

text \<open>
  What can happen in the console: a call of one of the store's functions or of a
  page's handler, with its arguments, or a page load. A state is reachable when a
  sequence of such events leads to it from the first visit, whatever the backend
  answers at each of them.
\<close>

datatype action =
    FetchHealthStatus
  | Login string string
  | Logout
  | RefreshAccessToken
  | FetchPackages
  | FetchPackageById string
  | CreatePackage json
  | UpdatePackage string json
  | DeletePackage string
  | FetchAllReviews "int option" "int option" "bool option"
  | FetchPackageReviews string "int option" "int option"
  | ApproveReview string
  | DeleteReview string
  | Reload string
  | FetchBookings
  | UpdateBookingStatus string string
  | DeleteBooking bool string
  | FetchCarouselItems
  | HandleDelete bool string
  | HandleToggleActive string bool
  | LoadCarouselItem string
  | UploadImage string string
  | HandleImageUpload "string option"
  | HandleSubmit "(string \<times> json) list" string
  | LoadPackageData string
  | HandleCoverImageUpload "string option"
  | HandleSubmitPackage "(string \<times> json) list" string

fun step :: "backend \<Rightarrow> action \<Rightarrow> world \<Rightarrow> world" where
  "step net FetchHealthStatus w = snd (fetchHealthStatus net w)"
| "step net (Login email password) w = snd (login net email password w)"
| "step net Logout w = logout w"
| "step net RefreshAccessToken w = snd (refreshAccessToken net w)"
| "step net FetchPackages w = snd (fetchPackages net w)"
| "step net (FetchPackageById ident) w = snd (fetchPackageById net ident w)"
| "step net (CreatePackage d) w = snd (createPackage net d w)"
| "step net (UpdatePackage ident d) w = snd (updatePackage net ident d w)"
| "step net (DeletePackage ident) w = snd (deletePackage net ident w)"
| "step net (FetchAllReviews page limit verified) w = snd (fetchAllReviews net page limit verified w)"
| "step net (FetchPackageReviews ident page limit) w = snd (fetchPackageReviews net ident page limit w)"
| "step net (ApproveReview ident) w = snd (approveReview net ident w)"
| "step net (DeleteReview ident) w = snd (deleteReview net ident w)"
| "step net (Reload path) w = new_session path w"
| "step net FetchBookings w = snd (fetchBookings net w)"
| "step net (UpdateBookingStatus ident status) w = snd (updateBookingStatus net ident status w)"
| "step net (DeleteBooking confirmed ident) w = snd (deleteBooking net confirmed ident w)"
| "step net FetchCarouselItems w = snd (fetchCarouselItems net w)"
| "step net (HandleDelete confirmed ident) w = snd (handleDelete net confirmed ident w)"
| "step net (HandleToggleActive ident currentStatus) w = snd (handleToggleActive net ident currentStatus w)"
| "step net (LoadCarouselItem ident) w = snd (loadCarouselItem net ident w)"
| "step net (UploadImage fallback file) w = snd (uploadImage fallback net file w)"
| "step net (HandleImageUpload file) w = snd (handleImageUpload net file w)"
| "step net (HandleSubmit newErrors ident) w = snd (handleSubmit net newErrors ident w)"
| "step net (LoadPackageData ident) w = snd (loadPackageData net ident w)"
| "step net (HandleCoverImageUpload file) w = snd (handleCoverImageUpload net file w)"
| "step net (HandleSubmitPackage newErrors ident) w = snd (handleSubmit_package net newErrors ident w)"

inductive reachable :: "world \<Rightarrow> bool" where
  start: "reachable (first_visit env items path)"
| after: "reachable w \<Longrightarrow> reachable (step net a w)"

text \<open>The requests sent between two states of the browser.\<close>

definition new_requests :: "world \<Rightarrow> world \<Rightarrow> request list" where
  "new_requests w w' = drop (length (sent w)) (sent w')"

text \<open>A reply that is no success: no response, or a status outside 200 to 299.\<close>

definition failure :: "reply \<Rightarrow> bool" where
  "failure rp = (case rp of NetFail e \<Rightarrow> True | Reply st d \<Rightarrow> \<not> status_ok st)"

text \<open>The error axios rejects with for a reply that is no success.\<close>

definition rejection :: "reply \<Rightarrow> js_exn" where
  "rejection rp =
     (case rp of
        NetFail e \<Rightarrow> e
      | Reply st d \<Rightarrow> JsError (''Request failed with status code '' @ show_nat st))"

text \<open>The backend fails the next request sent from \<open>w\<close>, whatever it asks.\<close>

definition next_fails :: "backend \<Rightarrow> world \<Rightarrow> bool" where
  "next_fails net w = (\<forall>r. failure (net (sent w @ [r])))"

text \<open>The backend answers the next request sent from \<open>w\<close> with a 2xx status and body \<open>d\<close>.\<close>

definition next_succeeds :: "backend \<Rightarrow> world \<Rightarrow> json \<Rightarrow> bool" where
  "next_succeeds net w d = (\<forall>r. \<exists>st. status_ok st \<and> net (sent w @ [r]) = Reply st d)"



text \<open>
  A request is authorized by a token when it carries the header Authorization with
  the value Bearer followed by the token. An operation that leads from \<open>w\<close> to \<open>w'\<close>
  sends with \<open>P\<close> when it has sent a request and \<open>P\<close> holds of each request it has
  sent; it sends only with \<open>P\<close> when it may have sent none.
\<close>

definition authorized :: "json \<Rightarrow> request \<Rightarrow> bool" where
  "authorized tok r = ((''Authorization'', ''Bearer '' @ template_str tok) \<in> set (headers r))"

definition sends_only :: "(request \<Rightarrow> bool) \<Rightarrow> world \<Rightarrow> world \<Rightarrow> bool" where
  "sends_only P w w' = list_all P (new_requests w w')"

definition sends_with :: "(request \<Rightarrow> bool) \<Rightarrow> world \<Rightarrow> world \<Rightarrow> bool" where
  "sends_with P w w' = (new_requests w w' \<noteq> [] \<and> list_all P (new_requests w w'))"

section \<open>Example backends and sessions\<close>

text \<open>A backend that cannot be reached, and one that answers every request with 200 and \<open>d\<close>.\<close>

definition offline :: backend where
  "offline tr = NetFail (JsError ''Network Error'')"

definition always :: "json \<Rightarrow> backend" where
  "always d tr = Reply 200 d"

definition example_world :: world where
  "example_world = first_visit None (\<lambda>k. None) ''/dashboard''"

text \<open>A login response for an administrator, and the session it opens.\<close>

definition admin_reply :: json where
  "admin_reply =
     JObj [(''access_token'', JStr ''A1''), (''refresh_token'', JStr ''R1''),
           (''user'', JObj [(''id'', JStr ''u1''), (''email'', JStr ''admin@example.com''),
                            (''role'', JStr ''ADMIN'')])]"

definition admin_session :: world where
  "admin_session = snd (login (always admin_reply) ''admin@example.com'' ''secret'' example_world)"

text \<open>A response that carries a list and its pagination.\<close>

definition listing :: json where
  "listing =
     JObj [(''data'', JArr [JObj [(''id'', JStr ''x1''), (''title'', JStr ''Petra'')]]),
           (''pagination'',
              JObj [(''page'', JNum 1), (''limit'', JNum 10), (''total'', JNum 1),
                    (''pages'', JNum 1)])]"


text \<open>
  A login response for an administrator whose access token is the empty string, and
  the session it opens.
\<close>

definition blank_token_reply :: json where
  "blank_token_reply =
     JObj [(''access_token'', JStr []), (''refresh_token'', JStr ''R1''),
           (''user'', JObj [(''id'', JStr ''u1''), (''email'', JStr ''admin@example.com''),
                            (''role'', JStr ''ADMIN'')])]"

definition blank_token_session :: world where
  "blank_token_session =
     step (always blank_token_reply) (Login ''admin@example.com'' ''secret'') example_world"

text \<open>
  What holds of the user in every state the console reaches: it is null or has the
  role ADMIN, and what localStorage holds of it is what the store holds.
\<close>

definition admin_or_null :: "json \<Rightarrow> bool" where
  "admin_or_null u = (u = JNull \<or> get_prop u ''role'' = Inr (JStr ''ADMIN''))"

definition admin_only :: "world \<Rightarrow> bool" where
  "admin_only w =
     (admin_or_null (user (store w)) \<and>
      (case auth_storage w of
         None \<Rightarrow> user (store w) = JNull
       | Some q \<Rightarrow> p_user q = user (store w)))"

text \<open>A login response for a user who is no administrator.\<close>

definition guest_reply :: json where
  "guest_reply =
     JObj [(''access_token'', JStr ''A9''), (''refresh_token'', JStr ''R9''),
           (''user'', JObj [(''id'', JStr ''u9''), (''email'', JStr ''guest@example.com''),
                            (''role'', JStr ''USER'')])]"

section \<open>Basic facts about requests and state\<close>

lemma settle_failure: "failure rp \<Longrightarrow> axios_settle rp = Rejected (rejection rp)"
  by (cases rp) (simp_all add: failure_def axios_settle_def rejection_def)

lemma next_failsD: "next_fails net w \<Longrightarrow> failure (net (sent w @ [r]))"
  by (simp add: next_fails_def)

lemma settle_succeeds:
  assumes "next_succeeds net w d"
  shows "axios_settle (net (sent w @ [r])) = Resolved d"
proof -
  from assms obtain st where "status_ok st" "net (sent w @ [r]) = Reply st d"
    unfolding next_succeeds_def by blast
  then show ?thesis
    by (simp add: axios_settle_def)
qed

lemma next_fails_offline: "next_fails offline w"
  by (simp add: next_fails_def offline_def failure_def)

lemma next_succeeds_always: "next_succeeds (always d) w d"
  by (simp add: next_succeeds_def always_def status_ok_def)

lemma sent_sending [simp]: "sent (sending r w) = sent w @ [r]"
  by (simp add: sending_def)

lemma store_sending [simp]: "store (sending r w) = store w"
  by (simp add: sending_def)

lemma env_sending [simp]: "env_api_base (sending r w) = env_api_base w"
  by (simp add: sending_def)

lemma sent_set_state [simp]: "sent (set_state f w) = sent w"
  by (simp add: set_state_def)

lemma store_set_state [simp]: "store (set_state f w) = f (store w)"
  by (simp add: set_state_def)

lemma env_set_state [simp]: "env_api_base (set_state f w) = env_api_base w"
  by (simp add: set_state_def)

lemma API_BASE_URL_set_state [simp]: "API_BASE_URL (set_state f w) = API_BASE_URL w"
  by (simp add: API_BASE_URL_def)

lemma API_BASE_URL_sending [simp]: "API_BASE_URL (sending r w) = API_BASE_URL w"
  by (simp add: API_BASE_URL_def)

lemma case_returns:
  "fst p = Inr u \<Longrightarrow>
   (case p of (Inl e, w2) \<Rightarrow> f e w2 | (Inr x, w2) \<Rightarrow> g x w2) = g u (snd p)"
  by (cases p) auto

lemma admin_session_store:
  "store admin_session =
     initial_state\<lparr> user := JObj [(''id'', JStr ''u1''), (''email'', JStr ''admin@example.com''),
                                    (''role'', JStr ''ADMIN'')],
                    accessToken := JStr ''A1'', refreshToken := JStr ''R1'' \<rparr>"
  by (simp add: admin_session_def login_def login_try_def Let_def axios_request_def
        axios_settle_def always_def status_ok_def admin_reply_def initial_state_def
        example_world_def first_visit_def set_state_def sending_def)

lemma admin_session_env: "env_api_base admin_session = None"
  by (simp add: admin_session_def login_def login_try_def Let_def axios_request_def
        axios_settle_def always_def status_ok_def admin_reply_def
        example_world_def first_visit_def set_state_def sending_def)

lemma admin_session_sent:
  "sent admin_session =
     [\<lparr> meth = POST, url = ''http://localhost:3000/auth/login'', headers = [],
        body = JsonBody (JObj [(''email'', JStr ''admin@example.com''),
                               (''password'', JStr ''secret'')]),
        timeout = None \<rparr>]"
  by (simp add: admin_session_def login_def login_try_def Let_def axios_request_def
        axios_settle_def always_def status_ok_def admin_reply_def
        example_world_def first_visit_def set_state_def sending_def API_BASE_URL_def env_or_def)

section \<open>Properties of the store's fetches and mutations\<close>

lemma fetchHealthStatus_returns: "fst (fetchHealthStatus net w) = Inr ()"
  by (simp add: fetchHealthStatus_def Let_def split: prod.splits axios_result.splits)

lemma fetchPackages_returns: "fst (fetchPackages net w) = Inr ()"
  by (simp add: fetchPackages_def Let_def split: prod.splits axios_result.splits sum.splits)

lemma store_reviews_returns: "fst (store_reviews r fb w) = Inr ()"
  by (simp add: store_reviews_def Let_def split: axios_result.splits sum.splits)

lemma fetchAllReviews_returns: "fst (fetchAllReviews net page limit verified w) = Inr ()"
  by (simp add: fetchAllReviews_def Let_def store_reviews_returns split: prod.splits)

lemma fetchPackageReviews_returns: "fst (fetchPackageReviews net pid page limit w) = Inr ()"
  by (simp add: fetchPackageReviews_def Let_def store_reviews_returns split: prod.splits)

lemma fetchHealthStatus_failed:
  "next_fails net w \<Longrightarrow>
   (\<exists>m. error (store (snd (fetchHealthStatus net w))) = Some m) \<and>
   loading (store (snd (fetchHealthStatus net w))) = False \<and>
   (store (snd (fetchHealthStatus net w)))
     \<lparr> loading := loading (store w), error := error (store w) \<rparr> = store w"
  by (simp add: fetchHealthStatus_def Let_def axios_request_def settle_failure next_failsD)

lemma fetchPackages_failed:
  "next_fails net w \<Longrightarrow>
   packagesError (store (snd (fetchPackages net w))) = Some ''Failed to fetch packages'' \<and>
   packagesLoading (store (snd (fetchPackages net w))) = False \<and>
   (store (snd (fetchPackages net w)))
     \<lparr> packagesLoading := packagesLoading (store w),
       packagesError := packagesError (store w) \<rparr> = store w"
  by (simp add: fetchPackages_def Let_def axios_request_def settle_failure next_failsD)

lemma fetchAllReviews_failed:
  "next_fails net w \<Longrightarrow>
   (\<exists>m. reviewsError (store (snd (fetchAllReviews net page limit verified w))) = Some m) \<and>
   reviewsLoading (store (snd (fetchAllReviews net page limit verified w))) = False \<and>
   (store (snd (fetchAllReviews net page limit verified w)))
     \<lparr> reviewsLoading := reviewsLoading (store w),
       reviewsError := reviewsError (store w) \<rparr> = store w"
  by (simp add: fetchAllReviews_def store_reviews_def Let_def axios_request_def
        settle_failure next_failsD)

lemma fetchPackageReviews_failed:
  "next_fails net w \<Longrightarrow>
   (\<exists>m. reviewsError (store (snd (fetchPackageReviews net pid page limit w))) = Some m) \<and>
   reviewsLoading (store (snd (fetchPackageReviews net pid page limit w))) = False \<and>
   (store (snd (fetchPackageReviews net pid page limit w)))
     \<lparr> reviewsLoading := reviewsLoading (store w),
       reviewsError := reviewsError (store w) \<rparr> = store w"
  by (simp add: fetchPackageReviews_def store_reviews_def Let_def axios_request_def
        settle_failure next_failsD)

lemma createPackage_failed:
  "next_fails net w \<Longrightarrow>
   fst (createPackage net pd w) = Inl (JsError ''Failed to create package'') \<and>
   store (snd (createPackage net pd w)) = store w"
  by (simp add: createPackage_def Let_def axios_request_def settle_failure next_failsD)

lemma updatePackage_failed:
  "next_fails net w \<Longrightarrow>
   fst (updatePackage net ident pd w) = Inl (JsError ''Failed to update package'') \<and>
   store (snd (updatePackage net ident pd w)) = store w"
  by (simp add: updatePackage_def Let_def axios_request_def settle_failure next_failsD)

lemma deletePackage_failed:
  "next_fails net w \<Longrightarrow>
   fst (deletePackage net ident w) = Inl (JsError ''Failed to delete package'') \<and>
   store (snd (deletePackage net ident w)) = store w"
  by (simp add: deletePackage_def Let_def axios_request_def settle_failure next_failsD)

lemma approveReview_failed:
  "next_fails net w \<Longrightarrow>
   fst (approveReview net rid w) = Inl (JsError ''Failed to approve review'') \<and>
   store (snd (approveReview net rid w)) = store w"
  by (simp add: approveReview_def Let_def axios_request_def settle_failure next_failsD)

lemma deleteReview_failed:
  "next_fails net w \<Longrightarrow>
   fst (deleteReview net rid w) = Inl (JsError ''Failed to delete review'') \<and>
   store (snd (deleteReview net rid w)) = store w"
  by (simp add: deleteReview_def Let_def axios_request_def settle_failure next_failsD)

lemma createPackage_throws:
  "fst (createPackage net pd w) = Inl e \<Longrightarrow> e = JsError ''Failed to create package''"
  by (auto simp: createPackage_def Let_def split: prod.splits axios_result.splits sum.splits)

lemma updatePackage_throws:
  "fst (updatePackage net ident pd w) = Inl e \<Longrightarrow> e = JsError ''Failed to update package''"
  by (auto simp: updatePackage_def Let_def split: prod.splits axios_result.splits sum.splits)

lemma deletePackage_throws:
  "fst (deletePackage net ident w) = Inl e \<Longrightarrow> e = JsError ''Failed to delete package''"
  by (auto simp: deletePackage_def Let_def split: prod.splits axios_result.splits sum.splits)

lemma approveReview_throws:
  "fst (approveReview net rid w) = Inl e \<Longrightarrow> e = JsError ''Failed to approve review''"
  by (auto simp: approveReview_def Let_def split: prod.splits axios_result.splits sum.splits)

lemma deleteReview_throws:
  "fst (deleteReview net rid w) = Inl e \<Longrightarrow> e = JsError ''Failed to delete review''"
  by (auto simp: deleteReview_def Let_def split: prod.splits axios_result.splits sum.splits)

text \<open>
  C6. The four list fetches (\<open>fetchHealthStatus\<close>, \<open>fetchPackages\<close>,
  \<open>fetchAllReviews\<close>, \<open>fetchPackageReviews\<close>) never throw, whatever the backend does;
  when the request fails each sets its error field to a message and clears its
  loading flag. The five mutation wrappers throw when their request fails, and
  whenever one of them throws, the error carries its fixed message.
\<close>

theorem error_taxonomy:
  "fst (fetchHealthStatus net w) = Inr () \<and>
   fst (fetchPackages net w) = Inr () \<and>
   fst (fetchAllReviews net page limit verified w) = Inr () \<and>
   fst (fetchPackageReviews net pid page limit w) = Inr () \<and>
   (next_fails net w \<longrightarrow>
      (\<exists>m. error (store (snd (fetchHealthStatus net w))) = Some m) \<and>
      loading (store (snd (fetchHealthStatus net w))) = False \<and>
      packagesError (store (snd (fetchPackages net w))) = Some ''Failed to fetch packages'' \<and>
      packagesLoading (store (snd (fetchPackages net w))) = False \<and>
      (\<exists>m. reviewsError (store (snd (fetchAllReviews net page limit verified w))) = Some m) \<and>
      reviewsLoading (store (snd (fetchAllReviews net page limit verified w))) = False \<and>
      (\<exists>m. reviewsError (store (snd (fetchPackageReviews net pid page limit w))) = Some m) \<and>
      reviewsLoading (store (snd (fetchPackageReviews net pid page limit w))) = False \<and>
      fst (createPackage net pd w) = Inl (JsError ''Failed to create package'') \<and>
      fst (updatePackage net ident pd w) = Inl (JsError ''Failed to update package'') \<and>
      fst (deletePackage net ident w) = Inl (JsError ''Failed to delete package'') \<and>
      fst (approveReview net rid w) = Inl (JsError ''Failed to approve review'') \<and>
      fst (deleteReview net rid w) = Inl (JsError ''Failed to delete review'')) \<and>
   (\<forall>e. fst (createPackage net pd w) = Inl e \<longrightarrow> e = JsError ''Failed to create package'') \<and>
   (\<forall>e. fst (updatePackage net ident pd w) = Inl e \<longrightarrow> e = JsError ''Failed to update package'') \<and>
   (\<forall>e. fst (deletePackage net ident w) = Inl e \<longrightarrow> e = JsError ''Failed to delete package'') \<and>
   (\<forall>e. fst (approveReview net rid w) = Inl e \<longrightarrow> e = JsError ''Failed to approve review'') \<and>
   (\<forall>e. fst (deleteReview net rid w) = Inl e \<longrightarrow> e = JsError ''Failed to delete review'')"
proof -
  have fetches:
    "fst (fetchHealthStatus net w) = Inr () \<and> fst (fetchPackages net w) = Inr () \<and>
     fst (fetchAllReviews net page limit verified w) = Inr () \<and>
     fst (fetchPackageReviews net pid page limit w) = Inr ()"
    by (simp add: fetchHealthStatus_returns fetchPackages_returns fetchAllReviews_returns
          fetchPackageReviews_returns)
  have failing:
    "next_fails net w \<longrightarrow>
      (\<exists>m. error (store (snd (fetchHealthStatus net w))) = Some m) \<and>
      loading (store (snd (fetchHealthStatus net w))) = False \<and>
      packagesError (store (snd (fetchPackages net w))) = Some ''Failed to fetch packages'' \<and>
      packagesLoading (store (snd (fetchPackages net w))) = False \<and>
      (\<exists>m. reviewsError (store (snd (fetchAllReviews net page limit verified w))) = Some m) \<and>
      reviewsLoading (store (snd (fetchAllReviews net page limit verified w))) = False \<and>
      (\<exists>m. reviewsError (store (snd (fetchPackageReviews net pid page limit w))) = Some m) \<and>
      reviewsLoading (store (snd (fetchPackageReviews net pid page limit w))) = False \<and>
      fst (createPackage net pd w) = Inl (JsError ''Failed to create package'') \<and>
      fst (updatePackage net ident pd w) = Inl (JsError ''Failed to update package'') \<and>
      fst (deletePackage net ident w) = Inl (JsError ''Failed to delete package'') \<and>
      fst (approveReview net rid w) = Inl (JsError ''Failed to approve review'') \<and>
      fst (deleteReview net rid w) = Inl (JsError ''Failed to delete review'')"
    by (simp add: fetchHealthStatus_failed fetchPackages_failed fetchAllReviews_failed
          fetchPackageReviews_failed createPackage_failed updatePackage_failed
          deletePackage_failed approveReview_failed deleteReview_failed)
  have fixed:
    "(\<forall>e. fst (createPackage net pd w) = Inl e \<longrightarrow> e = JsError ''Failed to create package'') \<and>
     (\<forall>e. fst (updatePackage net ident pd w) = Inl e \<longrightarrow> e = JsError ''Failed to update package'') \<and>
     (\<forall>e. fst (deletePackage net ident w) = Inl e \<longrightarrow> e = JsError ''Failed to delete package'') \<and>
     (\<forall>e. fst (approveReview net rid w) = Inl e \<longrightarrow> e = JsError ''Failed to approve review'') \<and>
     (\<forall>e. fst (deleteReview net rid w) = Inl e \<longrightarrow> e = JsError ''Failed to delete review'')"
    by (intro conjI allI impI)
       (erule createPackage_throws updatePackage_throws deletePackage_throws
              approveReview_throws deleteReview_throws)+
  from fetches failing fixed show ?thesis
    by (intro conjI) (elim conjE, assumption)+
qed

theorem error_taxonomy_witness:
  "next_fails offline admin_session \<and>
   fst (fetchPackages offline admin_session) = Inr () \<and>
   packagesError (store (snd (fetchPackages offline admin_session))) =
     Some ''Failed to fetch packages'' \<and>
   packagesLoading (store (snd (fetchPackages offline admin_session))) = False \<and>
   fst (deletePackage offline ''p1'' admin_session) = Inl (JsError ''Failed to delete package'')"
proof -
  have h: "next_fails offline admin_session"
    by (rule next_fails_offline)
  note t = error_taxonomy [of offline admin_session None None None "''p1''" JNull "''p1''" "''r1''"]
  note returns = t [THEN conjunct2, THEN conjunct1]
  note failing = t [THEN conjunct2, THEN conjunct2, THEN conjunct2, THEN conjunct2,
                    THEN conjunct1, THEN mp, OF h]
  from h returns failing show ?thesis
    by simp
qed

section \<open>Refetch after mutation\<close>

lemma sent_fetchPackages:
  "sent (snd (fetchPackages net w)) =
     sent w @ [\<lparr> meth = GET, url = API_BASE_URL w @ ''/packages'',
                 headers = [bearer (accessToken (store w))], body = NoBody, timeout = None \<rparr>]"
  by (simp add: fetchPackages_def Let_def axios_request_def
           split: axios_result.splits sum.splits)

lemma review_params_default: "review_params 1 10 None = ''page=1&limit=10''"
  by code_simp

lemma sent_fetchAllReviews_default:
  "sent (snd (fetchAllReviews net None None None w)) =
     sent w @ [\<lparr> meth = GET, url = API_BASE_URL w @ ''/admin/reviews?page=1&limit=10'',
                 headers = [bearer (accessToken (store w))], body = NoBody, timeout = None \<rparr>]"
  by (simp add: fetchAllReviews_def store_reviews_def Let_def axios_request_def
        review_params_default split: axios_result.splits sum.splits)

lemma createPackage_refetches:
  assumes "next_succeeds net w d"
  shows "createPackage net pd w =
           (Inr d, snd (fetchPackages net
              (sending \<lparr> meth = POST, url = API_BASE_URL w @ ''/packages'',
                          headers = [bearer (accessToken (store w)), content_json],
                          body = JsonBody pd, timeout = None \<rparr> w)))"
  using assms
  by (simp add: createPackage_def Let_def axios_request_def settle_succeeds
        case_returns fetchPackages_returns)

lemma updatePackage_refetches:
  assumes "next_succeeds net w d"
  shows "updatePackage net ident pd w =
           (Inr d, snd (fetchPackages net
              (sending \<lparr> meth = PATCH, url = API_BASE_URL w @ ''/packages/'' @ ident,
                          headers = [bearer (accessToken (store w)), content_json],
                          body = JsonBody pd, timeout = None \<rparr> w)))"
  using assms
  by (simp add: updatePackage_def Let_def axios_request_def settle_succeeds
        case_returns fetchPackages_returns)

lemma deletePackage_refetches:
  assumes "next_succeeds net w d"
  shows "deletePackage net ident w =
           (Inr (), snd (fetchPackages net
              (sending \<lparr> meth = DELETE, url = API_BASE_URL w @ ''/packages/'' @ ident,
                          headers = [bearer (accessToken (store w))],
                          body = NoBody, timeout = None \<rparr> w)))"
  using assms
  by (simp add: deletePackage_def Let_def axios_request_def settle_succeeds
        case_returns fetchPackages_returns)

lemma approveReview_refetches:
  assumes "next_succeeds net w d"
  shows "approveReview net rid w =
           (Inr (), snd (fetchAllReviews net None None None
              (sending \<lparr> meth = PATCH,
                          url = API_BASE_URL w @ ''/admin/reviews/'' @ rid @ ''/approve'',
                          headers = [bearer (accessToken (store w))],
                          body = JsonBody (JObj []), timeout = None \<rparr> w)))"
  using assms
  by (simp add: approveReview_def Let_def axios_request_def settle_succeeds
        case_returns fetchAllReviews_returns)

lemma deleteReview_refetches:
  assumes "next_succeeds net w d"
  shows "deleteReview net rid w =
           (Inr (), snd (fetchAllReviews net None None None
              (sending \<lparr> meth = DELETE, url = API_BASE_URL w @ ''/admin/reviews/'' @ rid,
                          headers = [bearer (accessToken (store w))],
                          body = NoBody, timeout = None \<rparr> w)))"
  using assms
  by (simp add: deleteReview_def Let_def axios_request_def settle_succeeds
        case_returns fetchAllReviews_returns)

text \<open>
  C1. When the request of a mutation wrapper succeeds, the wrapper runs the refetch
  of the mirrored list on the state it has reached and returns only then, with the
  state the refetch leaves: \<open>createPackage\<close>, \<open>updatePackage\<close> and \<open>deletePackage\<close> run
  \<open>fetchPackages\<close>; \<open>approveReview\<close> and \<open>deleteReview\<close> run \<open>fetchAllReviews\<close> with
  no argument, so that the request they end with asks for page 1 with limit 10.
\<close>

theorem mutations_refetch:
  assumes "next_succeeds net w d"
  shows
    "createPackage net pd w =
       (Inr d, snd (fetchPackages net
          (sending \<lparr> meth = POST, url = API_BASE_URL w @ ''/packages'',
                      headers = [bearer (accessToken (store w)), content_json],
                      body = JsonBody pd, timeout = None \<rparr> w))) \<and>
     updatePackage net ident pd w =
       (Inr d, snd (fetchPackages net
          (sending \<lparr> meth = PATCH, url = API_BASE_URL w @ ''/packages/'' @ ident,
                      headers = [bearer (accessToken (store w)), content_json],
                      body = JsonBody pd, timeout = None \<rparr> w))) \<and>
     deletePackage net ident w =
       (Inr (), snd (fetchPackages net
          (sending \<lparr> meth = DELETE, url = API_BASE_URL w @ ''/packages/'' @ ident,
                      headers = [bearer (accessToken (store w))],
                      body = NoBody, timeout = None \<rparr> w))) \<and>
     approveReview net rid w =
       (Inr (), snd (fetchAllReviews net None None None
          (sending \<lparr> meth = PATCH,
                      url = API_BASE_URL w @ ''/admin/reviews/'' @ rid @ ''/approve'',
                      headers = [bearer (accessToken (store w))],
                      body = JsonBody (JObj []), timeout = None \<rparr> w))) \<and>
     deleteReview net rid w =
       (Inr (), snd (fetchAllReviews net None None None
          (sending \<lparr> meth = DELETE, url = API_BASE_URL w @ ''/admin/reviews/'' @ rid,
                      headers = [bearer (accessToken (store w))],
                      body = NoBody, timeout = None \<rparr> w))) \<and>
     (\<forall>w' \<in> {snd (createPackage net pd w), snd (updatePackage net ident pd w),
               snd (deletePackage net ident w)}.
        length (sent w') = length (sent w) + 2 \<and>
        last (sent w') =
          \<lparr> meth = GET, url = API_BASE_URL w @ ''/packages'',
            headers = [bearer (accessToken (store w))], body = NoBody, timeout = None \<rparr>) \<and>
     (\<forall>w' \<in> {snd (approveReview net rid w), snd (deleteReview net rid w)}.
        length (sent w') = length (sent w) + 2 \<and>
        last (sent w') =
          \<lparr> meth = GET, url = API_BASE_URL w @ ''/admin/reviews?page=1&limit=10'',
            headers = [bearer (accessToken (store w))], body = NoBody, timeout = None \<rparr>)"
  by (simp add: createPackage_refetches [OF assms] updatePackage_refetches [OF assms]
        deletePackage_refetches [OF assms] approveReview_refetches [OF assms]
        deleteReview_refetches [OF assms] sent_fetchPackages sent_fetchAllReviews_default)

theorem mutations_refetch_witness:
  "next_succeeds (always (JObj [])) admin_session (JObj []) \<and>
   map (\<lambda>r. (meth r, url r, headers r))
     (new_requests admin_session (snd (deletePackage (always (JObj [])) ''p1'' admin_session))) =
     [(DELETE, ''http://localhost:3000/packages/p1'', [(''Authorization'', ''Bearer A1'')]),
      (GET, ''http://localhost:3000/packages'', [(''Authorization'', ''Bearer A1'')])] \<and>
   map (\<lambda>r. (meth r, url r, headers r))
     (new_requests admin_session (snd (approveReview (always (JObj [])) ''r1'' admin_session))) =
     [(PATCH, ''http://localhost:3000/admin/reviews/r1/approve'', [(''Authorization'', ''Bearer A1'')]),
      (GET, ''http://localhost:3000/admin/reviews?page=1&limit=10'',
       [(''Authorization'', ''Bearer A1'')])]"
proof -
  have h: "next_succeeds (always (JObj [])) admin_session (JObj [])"
    by (rule next_succeeds_always)
  note t = mutations_refetch [OF h, of JNull "''p1''" "''r1''"]
  note del = t [THEN conjunct2, THEN conjunct2, THEN conjunct1]
  note app = t [THEN conjunct2, THEN conjunct2, THEN conjunct2, THEN conjunct1]
  show ?thesis
    by (simp add: h del app new_requests_def sent_fetchPackages sent_fetchAllReviews_default
          admin_session_sent admin_session_store admin_session_env API_BASE_URL_def env_or_def
          bearer_def initial_state_def)
qed

section \<open>Mirroring the backend's collections\<close>

lemma get_prop_field: "d \<noteq> JNull \<Longrightarrow> d \<noteq> JUndefined \<Longrightarrow> get_prop d k = Inr (field d k)"
  by (cases d) (simp_all add: field_def)

lemma fetchPackages_succeeded:
  assumes "next_succeeds net w d" and "d \<noteq> JNull" and "d \<noteq> JUndefined"
  shows "store (snd (fetchPackages net w)) =
           (store w)\<lparr> packages := js_or (field d ''data'') d, packagesLoading := False,
                       packagesError := None \<rparr>"
  using assms
  by (simp add: fetchPackages_def Let_def axios_request_def settle_succeeds get_prop_field)

lemma fetchAllReviews_succeeded:
  assumes "next_succeeds net w d" and "d \<noteq> JNull" and "d \<noteq> JUndefined"
  shows "store (snd (fetchAllReviews net page limit verified w)) =
           (store w)\<lparr> reviews := field d ''data'', reviewsLoading := False,
                       reviewsError := None, reviewsPagination := field d ''pagination'' \<rparr>"
  using assms
  by (simp add: fetchAllReviews_def store_reviews_def Let_def axios_request_def
        settle_succeeds get_prop_field)

text \<open>
  C7. After a successful \<open>fetchPackages\<close> (the request answered with a 2xx status and
  a body \<open>d\<close> that is not null), \<open>packages\<close> is the package list of the response:
  the list \<open>d.data\<close> when the body has that field, and \<open>d\<close> itself when it has no
  such field (in general \<open>d.data || d\<close>; a list is truthy even when empty), with
  \<open>packagesLoading\<close> false and \<open>packagesError\<close> null. After a successful
  \<open>fetchAllReviews\<close>, \<open>reviews\<close> and \<open>reviewsPagination\<close> are the fields \<open>data\<close> and
  \<open>pagination\<close> of the body.
\<close>

theorem store_mirrors_response:
  assumes "next_succeeds net w d" and "d \<noteq> JNull" and "d \<noteq> JUndefined"
  shows
    "(\<forall>xs. field d ''data'' = JArr xs \<longrightarrow> packages (store (snd (fetchPackages net w))) = JArr xs) \<and>
     (field d ''data'' = JUndefined \<longrightarrow> packages (store (snd (fetchPackages net w))) = d) \<and>
     packages (store (snd (fetchPackages net w))) =
       (if truthy (field d ''data'') then field d ''data'' else d) \<and>
     packagesLoading (store (snd (fetchPackages net w))) = False \<and>
     packagesError (store (snd (fetchPackages net w))) = None \<and>
     reviews (store (snd (fetchAllReviews net page limit verified w))) = field d ''data'' \<and>
     reviewsPagination (store (snd (fetchAllReviews net page limit verified w))) =
       field d ''pagination'' \<and>
     reviewsLoading (store (snd (fetchAllReviews net page limit verified w))) = False \<and>
     reviewsError (store (snd (fetchAllReviews net page limit verified w))) = None"
  by (auto simp: fetchPackages_succeeded [OF assms] fetchAllReviews_succeeded [OF assms] js_or_def)

theorem store_mirrors_response_witness:
  "next_succeeds (always listing) admin_session listing \<and>
   packages (store (snd (fetchPackages (always listing) admin_session))) =
     JArr [JObj [(''id'', JStr ''x1''), (''title'', JStr ''Petra'')]] \<and>
   packages (store (snd (fetchPackages (always (JArr [])) admin_session))) = JArr [] \<and>
   reviews (store (snd (fetchAllReviews (always listing) None None None admin_session))) =
     JArr [JObj [(''id'', JStr ''x1''), (''title'', JStr ''Petra'')]] \<and>
   reviewsPagination (store (snd (fetchAllReviews (always listing) None None None admin_session))) =
     JObj [(''page'', JNum 1), (''limit'', JNum 10), (''total'', JNum 1), (''pages'', JNum 1)]"
proof -
  have h: "next_succeeds (always listing) admin_session listing"
    by (rule next_succeeds_always)
  have h': "next_succeeds (always (JArr [])) admin_session (JArr [])"
    by (rule next_succeeds_always)
  have l: "listing \<noteq> JNull" "listing \<noteq> JUndefined"
    by (simp_all add: listing_def)
  have f: "field listing ''data'' = JArr [JObj [(''id'', JStr ''x1''), (''title'', JStr ''Petra'')]]"
    "field listing ''pagination'' =
       JObj [(''page'', JNum 1), (''limit'', JNum 10), (''total'', JNum 1), (''pages'', JNum 1)]"
    "field (JArr []) ''data'' = JUndefined"
    by (simp_all add: listing_def field_def)
  note t = store_mirrors_response [OF h l, of None None None]
  note t' = store_mirrors_response [OF h', of None None None]
  from t f have a: "packages (store (snd (fetchPackages (always listing) admin_session))) =
     JArr [JObj [(''id'', JStr ''x1''), (''title'', JStr ''Petra'')]]"
    by simp
  from t' f have b: "packages (store (snd (fetchPackages (always (JArr [])) admin_session))) = JArr []"
    by simp
  from t f have c:
    "reviews (store (snd (fetchAllReviews (always listing) None None None admin_session))) =
       JArr [JObj [(''id'', JStr ''x1''), (''title'', JStr ''Petra'')]]"
    "reviewsPagination (store (snd (fetchAllReviews (always listing) None None None admin_session))) =
       JObj [(''page'', JNum 1), (''limit'', JNum 10), (''total'', JNum 1), (''pages'', JNum 1)]"
    by simp_all
  from h a b c show ?thesis
    by simp
qed

section \<open>Refreshing the access token\<close>

lemma refreshAccessToken_null:
  "refreshToken (store w) = JNull \<Longrightarrow>
   refreshAccessToken net w = (Inl (JsError ''No refresh token available''), w)"
  by (simp add: refreshAccessToken_def Let_def)

lemma refreshAccessToken_failed:
  assumes "truthy (refreshToken (store w))" and "next_fails net w"
  shows "fst (refreshAccessToken net w) = Inl (JsError ''Session expired. Please login again.'') \<and>
         store (snd (refreshAccessToken net w)) =
           (store w)\<lparr> user := JNull, accessToken := JNull, refreshToken := JNull,
                       authError := None \<rparr>"
  using assms
  by (simp add: refreshAccessToken_def refreshAccessToken_try_def Let_def axios_request_def
        settle_failure next_failsD logout_def)

lemma refreshAccessToken_succeeded:
  assumes "truthy (refreshToken (store w))" and "next_succeeds net w d"
    and "d \<noteq> JNull" and "d \<noteq> JUndefined"
  shows "fst (refreshAccessToken net w) = Inr (field d ''access_token'') \<and>
         store (snd (refreshAccessToken net w)) =
           (store w)\<lparr> accessToken := field d ''access_token'' \<rparr>"
  using assms
  by (simp add: refreshAccessToken_def refreshAccessToken_try_def Let_def axios_request_def
        settle_succeeds get_prop_field)

text \<open>
  C9. \<open>refreshAccessToken\<close>: with \<open>refreshToken\<close> null it throws
  'No refresh token available' and changes nothing at all. With a refresh token, when
  the request fails it clears \<open>user\<close>, \<open>accessToken\<close>, \<open>refreshToken\<close> and \<open>authError\<close>
  (what \<open>logout\<close> does) and throws 'Session expired. Please login again.'; when the
  request succeeds with a body \<open>d\<close> it sets \<open>accessToken\<close> to \<open>d.access_token\<close>,
  returns it, and leaves every other field as it was.
\<close>

theorem refreshAccessToken_cases:
  "(refreshToken (store w) = JNull \<longrightarrow>
      refreshAccessToken net w = (Inl (JsError ''No refresh token available''), w)) \<and>
   (truthy (refreshToken (store w)) \<and> next_fails net w \<longrightarrow>
      fst (refreshAccessToken net w) = Inl (JsError ''Session expired. Please login again.'') \<and>
      store (snd (refreshAccessToken net w)) =
        (store w)\<lparr> user := JNull, accessToken := JNull, refreshToken := JNull,
                    authError := None \<rparr> \<and>
      store (snd (refreshAccessToken net w)) = store (logout w)) \<and>
   (truthy (refreshToken (store w)) \<and> next_succeeds net w d \<and> d \<noteq> JNull \<and> d \<noteq> JUndefined \<longrightarrow>
      fst (refreshAccessToken net w) = Inr (field d ''access_token'') \<and>
      store (snd (refreshAccessToken net w)) =
        (store w)\<lparr> accessToken := field d ''access_token'' \<rparr>)"
  by (simp add: refreshAccessToken_null refreshAccessToken_failed refreshAccessToken_succeeded
        logout_def)

theorem refreshAccessToken_cases_witness:
  "refreshAccessToken offline example_world =
     (Inl (JsError ''No refresh token available''), example_world) \<and>
   fst (refreshAccessToken offline admin_session) =
     Inl (JsError ''Session expired. Please login again.'') \<and>
   store (snd (refreshAccessToken offline admin_session)) = initial_state \<and>
   fst (refreshAccessToken (always (JObj [(''access_token'', JStr ''A2'')])) admin_session) =
     Inr (JStr ''A2'') \<and>
   store (snd (refreshAccessToken (always (JObj [(''access_token'', JStr ''A2'')])) admin_session)) =
     (store admin_session)\<lparr> accessToken := JStr ''A2'' \<rparr>"
proof -
  have n: "refreshToken (store example_world) = JNull"
    by (simp add: example_world_def first_visit_def initial_state_def)
  have r: "truthy (refreshToken (store admin_session))"
    by (simp add: admin_session_store)
  have f: "next_fails offline admin_session"
    by (rule next_fails_offline)
  have s: "next_succeeds (always (JObj [(''access_token'', JStr ''A2'')])) admin_session
             (JObj [(''access_token'', JStr ''A2'')])"
    by (rule next_succeeds_always)
  note a = refreshAccessToken_cases [of example_world offline JNull, THEN conjunct1, THEN mp, OF n]
  note b = refreshAccessToken_cases [of admin_session offline JNull, THEN conjunct2, THEN conjunct1,
             THEN mp, OF conjI [OF r f]]
  have c: "fst (refreshAccessToken (always (JObj [(''access_token'', JStr ''A2'')])) admin_session) =
             Inr (field (JObj [(''access_token'', JStr ''A2'')]) ''access_token'') \<and>
           store (snd (refreshAccessToken (always (JObj [(''access_token'', JStr ''A2'')])) admin_session)) =
             (store admin_session)\<lparr> accessToken := field (JObj [(''access_token'', JStr ''A2'')]) ''access_token'' \<rparr>"
    using refreshAccessToken_cases [of admin_session "always (JObj [(''access_token'', JStr ''A2'')])"
             "JObj [(''access_token'', JStr ''A2'')]", THEN conjunct2, THEN conjunct2] r s
    by simp
  have i: "(store admin_session)\<lparr> user := JNull, accessToken := JNull, refreshToken := JNull,
                    authError := None \<rparr> = initial_state"
    by (simp add: admin_session_store initial_state_def)
  from a b c i show ?thesis
    by (simp add: field_def)
qed

section \<open>Persistence\<close>

text \<open>
  C5. Only \<open>user\<close>, \<open>accessToken\<close> and \<open>refreshToken\<close> are persisted: what the
  store writes to localStorage at each \<open>set\<close> is \<open>partialize\<close> of the new state, which
  is the same for two states exactly when they agree on these three fields. So in
  every new session, whatever the state the browser was left in, \<open>packages\<close> and
  \<open>reviews\<close> are empty, \<open>reviewsPagination\<close> and \<open>healthData\<close> are null, every loading
  flag is false and every error null; the three auth fields come back as persisted.
\<close>

theorem only_auth_persisted:
  "auth_storage (set_state f w) = Some (partialize (f (store w))) \<and>
   (partialize s = partialize s' \<longleftrightarrow>
      user s = user s' \<and> accessToken s = accessToken s' \<and> refreshToken s = refreshToken s') \<and>
   packages (store (new_session path w)) = JArr [] \<and>
   reviews (store (new_session path w)) = JArr [] \<and>
   reviewsPagination (store (new_session path w)) = JNull \<and>
   healthData (store (new_session path w)) = JNull \<and>
   loading (store (new_session path w)) = False \<and>
   error (store (new_session path w)) = None \<and>
   isLoading (store (new_session path w)) = False \<and>
   authError (store (new_session path w)) = None \<and>
   packagesLoading (store (new_session path w)) = False \<and>
   packagesError (store (new_session path w)) = None \<and>
   reviewsLoading (store (new_session path w)) = False \<and>
   reviewsError (store (new_session path w)) = None \<and>
   (\<forall>q. auth_storage w = Some q \<and> p_user q \<noteq> JUndefined \<and> p_accessToken q \<noteq> JUndefined \<and>
        p_refreshToken q \<noteq> JUndefined \<longrightarrow>
        partialize (store (new_session path w)) = q)"
  by (auto simp: set_state_def partialize_def new_session_def rehydrate_def initial_state_def
        split: option.splits)

theorem only_auth_persisted_witness:
  "auth_storage (snd (fetchPackages (always listing) admin_session)) =
     Some (partialize (store admin_session)) \<and>
   packages (store (snd (fetchPackages (always listing) admin_session))) \<noteq> JArr [] \<and>
   store (new_session ''/packages'' (snd (fetchPackages (always listing) admin_session))) =
     store admin_session"
proof -
  let ?w = "snd (fetchPackages (always listing) admin_session)"
  have h: "next_succeeds (always listing) admin_session listing"
    by (rule next_succeeds_always)
  have l: "listing \<noteq> JNull" "listing \<noteq> JUndefined"
    by (simp_all add: listing_def)
  have st: "store ?w = (store admin_session)\<lparr> packages := js_or (field listing ''data'') listing,
              packagesLoading := False, packagesError := None \<rparr>"
    by (rule fetchPackages_succeeded [OF h l])
  have au: "auth_storage ?w = Some (partialize (store admin_session))"
    by (simp add: fetchPackages_def Let_def axios_request_def settle_succeeds [OF h]
          get_prop_field [OF l] set_state_def sending_def partialize_def)
  have q: "p_user (partialize (store admin_session)) \<noteq> JUndefined \<and>
           p_accessToken (partialize (store admin_session)) \<noteq> JUndefined \<and>
           p_refreshToken (partialize (store admin_session)) \<noteq> JUndefined"
    by (simp add: partialize_def admin_session_store)
  note t = only_auth_persisted [of "\<lambda>s. s" ?w "store ?w" "store admin_session" "''/packages''"]
  from t au q have restored: "partialize (store (new_session ''/packages'' ?w)) = partialize (store admin_session)"
    by blast
  have ne: "packages (store ?w) \<noteq> JArr []"
    using st by (simp add: js_or_def field_def listing_def)
  have eq: "store (new_session ''/packages'' ?w) = store admin_session"
    using restored
    by (simp add: new_session_def rehydrate_def au partialize_def admin_session_store initial_state_def)
  from au ne eq show ?thesis
    by simp
qed

section \<open>Only administrators are logged in\<close>

lemma admin_only_set_state:
  "admin_only (set_state f w) = admin_or_null (user (f (store w)))"
  by (simp add: admin_only_def set_state_def partialize_def)

lemma admin_only_same:
  "store w' = store w \<Longrightarrow> auth_storage w' = auth_storage w \<Longrightarrow> admin_only w' = admin_only w"
  by (simp add: admin_only_def split: option.splits)

lemma admin_only_sending [simp]: "admin_only (sending r w) = admin_only w"
  by (rule admin_only_same) (simp_all add: sending_def)

lemma admin_only_alert [simp]: "admin_only (alert m w) = admin_only w"
  by (rule admin_only_same) (simp_all add: alert_def)

lemma admin_only_navigate [simp]: "admin_only (navigate p w) = admin_only w"
  by (rule admin_only_same) (simp_all add: navigate_def)

lemma admin_only_setLoading [simp]: "admin_only (setLoading b w) = admin_only w"
  by (rule admin_only_same) (simp_all add: setLoading_def)

lemma admin_only_setError [simp]: "admin_only (setError e w) = admin_only w"
  by (rule admin_only_same) (simp_all add: setError_def)

lemma admin_only_setBookings [simp]: "admin_only (setBookings d w) = admin_only w"
  by (rule admin_only_same) (simp_all add: setBookings_def)

lemma admin_only_setCarouselLoading [simp]: "admin_only (setCarouselLoading b w) = admin_only w"
  by (rule admin_only_same) (simp_all add: setCarouselLoading_def)

lemma admin_only_setCarouselError [simp]: "admin_only (setCarouselError e w) = admin_only w"
  by (rule admin_only_same) (simp_all add: setCarouselError_def)

lemma admin_only_setCarouselItems [simp]: "admin_only (setCarouselItems d w) = admin_only w"
  by (rule admin_only_same) (simp_all add: setCarouselItems_def)

lemma admin_only_setFetchingItem [simp]: "admin_only (setFetchingItem b w) = admin_only w"
  by (rule admin_only_same) (simp_all add: setFetchingItem_def)

lemma admin_only_setCarouselForm [simp]: "admin_only (setCarouselForm f w) = admin_only w"
  by (rule admin_only_same) (simp_all add: setCarouselForm_def)

lemma admin_only_setCarouselEditLoading [simp]:
  "admin_only (setCarouselEditLoading b w) = admin_only w"
  by (rule admin_only_same) (simp_all add: setCarouselEditLoading_def)

lemma admin_only_updateForm [simp]: "admin_only (updateForm fld v w) = admin_only w"
  by (rule admin_only_same) (simp_all add: updateForm_def)

lemma admin_only_setUploadingImage [simp]: "admin_only (setUploadingImage b w) = admin_only w"
  by (rule admin_only_same) (simp_all add: setUploadingImage_def)

lemma admin_only_setErrors [simp]: "admin_only (setErrors es w) = admin_only w"
  by (rule admin_only_same) (simp_all add: setErrors_def)

lemma admin_only_updateForm_package [simp]:
  "admin_only (updateForm_package fld v w) = admin_only w"
  by (rule admin_only_same) (simp_all add: updateForm_package_def)

lemma admin_only_setUploadingImage_package [simp]:
  "admin_only (setUploadingImage_package b w) = admin_only w"
  by (rule admin_only_same) (simp_all add: setUploadingImage_package_def)

lemma admin_only_setErrors_package [simp]: "admin_only (setErrors_package es w) = admin_only w"
  by (rule admin_only_same) (simp_all add: setErrors_package_def)

lemma admin_only_setLoading_package [simp]: "admin_only (setLoading_package b w) = admin_only w"
  by (rule admin_only_same) (simp_all add: setLoading_package_def)

lemma admin_only_setFetchingPackage [simp]: "admin_only (setFetchingPackage b w) = admin_only w"
  by (rule admin_only_same) (simp_all add: setFetchingPackage_def)

lemma admin_only_setPackageForm [simp]: "admin_only (setPackageForm f w) = admin_only w"
  by (rule admin_only_same) (simp_all add: setPackageForm_def)

lemma admin_only_user: "admin_only w \<Longrightarrow> admin_or_null (user (store w))"
  by (simp add: admin_only_def)

lemma admin_only_logout [simp]: "admin_only (logout w)"
  by (simp add: logout_def admin_only_set_state admin_or_null_def)

lemma admin_only_fetchHealthStatus:
  "admin_only w \<Longrightarrow> admin_only (snd (fetchHealthStatus net w))"
  by (auto simp: fetchHealthStatus_def Let_def axios_request_def admin_only_set_state
        admin_only_user split: axios_result.splits)

lemma admin_or_null_role: "get_prop u ''role'' = Inr (JStr ''ADMIN'') \<Longrightarrow> admin_or_null u"
  by (simp add: admin_or_null_def)

lemma admin_only_login: "admin_only w \<Longrightarrow> admin_only (snd (login net email password w))"
  by (auto simp: login_def login_try_def Let_def axios_request_def admin_only_set_state
        admin_only_user admin_or_null_role split: axios_result.splits sum.splits)

lemma admin_only_refreshAccessToken:
  "admin_only w \<Longrightarrow> admin_only (snd (refreshAccessToken net w))"
  by (auto simp: refreshAccessToken_def refreshAccessToken_try_def Let_def axios_request_def
        admin_only_set_state admin_only_user split: axios_result.splits sum.splits)

lemma admin_only_fetchPackages: "admin_only w \<Longrightarrow> admin_only (snd (fetchPackages net w))"
  by (auto simp: fetchPackages_def Let_def axios_request_def admin_only_set_state
        admin_only_user split: axios_result.splits sum.splits)

lemma admin_only_fetchPackageById:
  "admin_only w \<Longrightarrow> admin_only (snd (fetchPackageById net ident w))"
  by (auto simp: fetchPackageById_def Let_def axios_request_def
        split: axios_result.splits sum.splits)

lemma admin_only_createPackage: "admin_only w \<Longrightarrow> admin_only (snd (createPackage net pd w))"
  by (auto simp: createPackage_def Let_def axios_request_def case_returns fetchPackages_returns
        admin_only_fetchPackages split: axios_result.splits)

lemma admin_only_updatePackage:
  "admin_only w \<Longrightarrow> admin_only (snd (updatePackage net ident pd w))"
  by (auto simp: updatePackage_def Let_def axios_request_def case_returns fetchPackages_returns
        admin_only_fetchPackages split: axios_result.splits)

lemma admin_only_deletePackage: "admin_only w \<Longrightarrow> admin_only (snd (deletePackage net ident w))"
  by (auto simp: deletePackage_def Let_def axios_request_def case_returns fetchPackages_returns
        admin_only_fetchPackages split: axios_result.splits)

lemma admin_only_store_reviews: "admin_only w \<Longrightarrow> admin_only (snd (store_reviews r fb w))"
  by (auto simp: store_reviews_def Let_def admin_only_set_state admin_only_user
        split: axios_result.splits sum.splits)

lemma admin_only_fetchAllReviews:
  "admin_only w \<Longrightarrow> admin_only (snd (fetchAllReviews net page limit verified w))"
  by (simp add: fetchAllReviews_def Let_def axios_request_def admin_only_store_reviews
        admin_only_set_state admin_only_user)

lemma admin_only_fetchPackageReviews:
  "admin_only w \<Longrightarrow> admin_only (snd (fetchPackageReviews net pid page limit w))"
  by (simp add: fetchPackageReviews_def Let_def axios_request_def admin_only_store_reviews
        admin_only_set_state admin_only_user)

lemma admin_only_approveReview: "admin_only w \<Longrightarrow> admin_only (snd (approveReview net rid w))"
  by (auto simp: approveReview_def Let_def axios_request_def case_returns fetchAllReviews_returns
        admin_only_fetchAllReviews split: axios_result.splits)

lemma admin_only_deleteReview: "admin_only w \<Longrightarrow> admin_only (snd (deleteReview net rid w))"
  by (auto simp: deleteReview_def Let_def axios_request_def case_returns fetchAllReviews_returns
        admin_only_fetchAllReviews split: axios_result.splits)

lemma admin_only_new_session: "admin_only w \<Longrightarrow> admin_only (new_session path w)"
  by (auto simp: admin_only_def new_session_def rehydrate_def initial_state_def admin_or_null_def
        split: option.splits)

lemma admin_only_fetchBookings: "admin_only w \<Longrightarrow> admin_only (snd (fetchBookings net w))"
  by (auto simp: fetchBookings_def fetchBookings_try_def Let_def fetch_request_def
        split: reply.splits)

lemma admin_only_updateBookingStatus:
  "admin_only w \<Longrightarrow> admin_only (snd (updateBookingStatus net bid status w))"
  by (auto simp: updateBookingStatus_def updateBookingStatus_try_def Let_def fetch_request_def
        admin_only_fetchBookings split: reply.splits sum.splits)

lemma admin_only_deleteBooking:
  "admin_only w \<Longrightarrow> admin_only (snd (deleteBooking net confirmed bid w))"
  by (auto simp: deleteBooking_def Let_def fetch_request_def admin_only_fetchBookings
        split: reply.splits)

lemma admin_only_fetchCarouselItems:
  "admin_only w \<Longrightarrow> admin_only (snd (fetchCarouselItems net w))"
  by (auto simp: fetchCarouselItems_def fetchCarouselItems_try_def Let_def fetch_request_def
        split: reply.splits sum.splits)

lemma admin_only_handleDelete:
  "admin_only w \<Longrightarrow> admin_only (snd (handleDelete net confirmed ident w))"
  by (auto simp: handleDelete_def Let_def fetch_request_def admin_only_fetchCarouselItems
        split: reply.splits)

lemma admin_only_handleToggleActive:
  "admin_only w \<Longrightarrow> admin_only (snd (handleToggleActive net ident cur w))"
  by (auto simp: handleToggleActive_def Let_def fetch_request_def admin_only_fetchCarouselItems
        split: reply.splits)

lemma admin_only_loadCarouselItem:
  "admin_only w \<Longrightarrow> admin_only (snd (loadCarouselItem net ident w))"
  by (auto simp: loadCarouselItem_def loadCarouselItem_try_def Let_def fetch_request_def
        split: reply.splits sum.splits)

lemma admin_only_uploadImage:
  "admin_only w \<Longrightarrow> admin_only (snd (uploadImage fallback net upload w))"
  by (auto simp: uploadImage_def Let_def fetch_request_def split: reply.splits sum.splits)

lemma admin_only_handleSubmit:
  "admin_only w \<Longrightarrow> admin_only (snd (handleSubmit net newErrors ident w))"
  by (auto simp: handleSubmit_def Let_def fetch_request_def split: reply.splits)

lemma admin_only_handleImageUpload:
  assumes "admin_only w"
  shows "admin_only (snd (handleImageUpload net upload w))"
proof (cases upload)
  case None
  with assms show ?thesis
    by (simp add: handleImageUpload_def)
next
  case (Some f)
  let ?u = "uploadImage ''http://localhost:3002'' net f (setUploadingImage True w)"
  obtain r w2 where u: "?u = (r, w2)"
    by (cases ?u)
  have "admin_only (snd ?u)"
    using assms by (simp add: admin_only_uploadImage)
  with u have "admin_only w2"
    by simp
  then show ?thesis
    by (cases r) (simp_all add: handleImageUpload_def Some u)
qed

lemma admin_only_handleCoverImageUpload:
  assumes "admin_only w"
  shows "admin_only (snd (handleCoverImageUpload net upload w))"
proof (cases upload)
  case None
  with assms show ?thesis
    by (simp add: handleCoverImageUpload_def)
next
  case (Some f)
  let ?u = "uploadImage ''http://localhost:3002'' net f (setUploadingImage_package True w)"
  obtain r w2 where u: "?u = (r, w2)"
    by (cases ?u)
  have "admin_only (snd ?u)"
    using assms by (simp add: admin_only_uploadImage)
  with u have "admin_only w2"
    by simp
  then show ?thesis
    by (cases r) (simp_all add: handleCoverImageUpload_def Some u)
qed

lemma admin_only_handleSubmit_package:
  assumes "admin_only w"
  shows "admin_only (snd (handleSubmit_package net newErrors ident w))"
proof (cases "newErrors = []")
  case False
  with assms show ?thesis
    by (simp add: handleSubmit_package_def Let_def)
next
  case True
  let ?w1 = "setLoading_package True (setErrors_package [] w)"
  let ?d = "JObj [(''title'', field (form (packageEdit ?w1)) ''title''),
                 (''description'', field (form (packageEdit ?w1)) ''description''),
                 (''location'', field (form (packageEdit ?w1)) ''location''),
                 (''price'', field (form (packageEdit ?w1)) ''price''),
                 (''duration'', field (form (packageEdit ?w1)) ''duration''),
                 (''category'', field (form (packageEdit ?w1)) ''category''),
                 (''difficulty'', field (form (packageEdit ?w1)) ''difficulty''),
                 (''coverImage'', field (form (packageEdit ?w1)) ''coverImage'')]"
  let ?u = "updatePackage net ident ?d ?w1"
  obtain r w2 where u: "?u = (r, w2)"
    by (cases ?u)
  have "admin_only (snd ?u)"
    using assms by (simp add: admin_only_updatePackage)
  with u have "admin_only w2"
    by simp
  then show ?thesis
    by (cases r) (simp_all add: handleSubmit_package_def True Let_def u)
qed

lemma fetchPackageById_returns: "\<exists>v. fst (fetchPackageById net ident w) = Inr v"
  by (auto simp: fetchPackageById_def Let_def axios_request_def
        split: axios_result.splits sum.splits)

lemma admin_only_loadPackageData:
  assumes "admin_only w"
  shows "admin_only (snd (loadPackageData net ident w))"
proof -
  let ?w1 = "setFetchingPackage True w"
  have a: "admin_only ?w1"
    using assms by simp
  have b: "admin_only (snd (fetchPackageById net ident ?w1))"
    by (rule admin_only_fetchPackageById [OF a])
  obtain v w2 where f: "fetchPackageById net ident ?w1 = (Inr v, w2)"
    using fetchPackageById_returns [of net ident ?w1]
    by (cases "fetchPackageById net ident ?w1") auto
  with b have c: "admin_only w2"
    by simp
  have "admin_only (snd (loadPackageData_try net ident w))"
    using a c f
    by (auto simp: loadPackageData_try_def Let_def split: json.splits sum.splits)
  then show ?thesis
    by (auto simp: loadPackageData_def split: prod.splits sum.splits)
qed

lemma admin_only_step: "admin_only w \<Longrightarrow> admin_only (step net a w)"
  by (cases a)
     (simp_all add: admin_only_fetchHealthStatus admin_only_login admin_only_refreshAccessToken
        admin_only_fetchPackages admin_only_fetchPackageById admin_only_createPackage
        admin_only_updatePackage admin_only_deletePackage admin_only_fetchAllReviews
        admin_only_fetchPackageReviews admin_only_approveReview admin_only_deleteReview
        admin_only_new_session admin_only_fetchBookings admin_only_updateBookingStatus
        admin_only_deleteBooking admin_only_fetchCarouselItems admin_only_handleDelete
        admin_only_handleToggleActive admin_only_loadCarouselItem admin_only_uploadImage
        admin_only_handleSubmit admin_only_loadPackageData admin_only_handleImageUpload
        admin_only_handleCoverImageUpload admin_only_handleSubmit_package)

lemma reachable_admin_only: "reachable w \<Longrightarrow> admin_only w"
proof (induction rule: reachable.induct)
  case (start env items path)
  show ?case
    by (simp add: admin_only_def first_visit_def initial_state_def admin_or_null_def)
next
  case (after w net a)
  then show ?case
    by (simp add: admin_only_step)
qed

lemma login_admin:
  assumes "next_succeeds net w d" and "d \<noteq> JNull" and "d \<noteq> JUndefined"
    and "get_prop (field d ''user'') ''role'' = Inr (JStr ''ADMIN'')"
  shows "fst (login net email password w) = Inr () \<and>
         store (snd (login net email password w)) =
           (store w)\<lparr> user := field d ''user'', accessToken := field d ''access_token'',
                       refreshToken := field d ''refresh_token'', isLoading := False,
                       authError := None \<rparr>"
  using assms
  by (simp add: login_def login_try_def Let_def axios_request_def settle_succeeds get_prop_field)

lemma login_denied:
  assumes "next_succeeds net w d" and "d \<noteq> JNull" and "d \<noteq> JUndefined"
    and "get_prop (field d ''user'') ''role'' = Inr r" and "r \<noteq> JStr ''ADMIN''"
  shows "fst (login net email password w) =
           Inl (JsError ''Access denied. Admin privileges required.'') \<and>
         store (snd (login net email password w)) =
           (store w)\<lparr> isLoading := False,
                       authError := Some ''Access denied. Admin privileges required.'' \<rparr>"
  using assms
  by (simp add: login_def login_try_def Let_def axios_request_def settle_succeeds get_prop_field
        err_message_def)

lemma login_thrown:
  "fst (login net email password w) = Inl e \<Longrightarrow>
   user (store (snd (login net email password w))) = user (store w) \<and>
   accessToken (store (snd (login net email password w))) = accessToken (store w) \<and>
   refreshToken (store (snd (login net email password w))) = refreshToken (store w)"
  by (auto simp: login_def login_try_def Let_def axios_request_def
        split: axios_result.splits sum.splits if_splits)

lemma login_returned:
  "fst (login net email password w) = Inr () \<Longrightarrow>
   get_prop (user (store (snd (login net email password w)))) ''role'' = Inr (JStr ''ADMIN'')"
  by (auto simp: login_def login_try_def Let_def axios_request_def
        split: axios_result.splits sum.splits if_splits)

lemma role_not_null: "get_prop u ''role'' = Inr r \<Longrightarrow> u \<noteq> JNull"
  by auto

lemma role_admin_truthy: "get_prop u ''role'' = Inr (JStr ''ADMIN'') \<Longrightarrow> truthy u"
  by (cases u) simp_all

lemma checkAuthStatus_iff:
  "checkAuthStatus w \<longleftrightarrow>
     user (store w) \<noteq> JNull \<and> truthy (accessToken (store w)) \<and>
     get_prop (user (store w)) ''role'' = Inr (JStr ''ADMIN'')"
  using role_admin_truthy [of "user (store w)"] role_not_null [of "user (store w)"]
  by (auto simp: checkAuthStatus_def Let_def)

lemma reachable_example_world: "reachable example_world"
  unfolding example_world_def by (rule reachable.start)

lemma reachable_admin_session: "reachable admin_session"
  using reachable.after [OF reachable_example_world,
      of "always admin_reply" "Login ''admin@example.com'' ''secret''"]
  by (simp add: admin_session_def)

lemma blank_token_session_store:
  "store blank_token_session =
     initial_state\<lparr> user := JObj [(''id'', JStr ''u1''), (''email'', JStr ''admin@example.com''),
                                    (''role'', JStr ''ADMIN'')],
                    accessToken := JStr [], refreshToken := JStr ''R1'' \<rparr>"
  by (simp add: blank_token_session_def login_def login_try_def Let_def axios_request_def
        axios_settle_def always_def status_ok_def blank_token_reply_def initial_state_def
        example_world_def first_visit_def set_state_def sending_def)

text \<open>
  C4, as the claim states it, fails: an administrator's login whose response carries
  the empty string as access token leads to a state where \<open>user\<close> and \<open>accessToken\<close>
  are both non-null and the role is ADMIN, and \<open>checkAuthStatus\<close> is false.
\<close>

theorem checkAuthStatus_counterexample:
  "reachable blank_token_session \<and>
   user (store blank_token_session) \<noteq> JNull \<and>
   accessToken (store blank_token_session) \<noteq> JNull \<and>
   get_prop (user (store blank_token_session)) ''role'' = Inr (JStr ''ADMIN'') \<and>
   \<not> checkAuthStatus blank_token_session"
proof -
  have "reachable blank_token_session"
    unfolding blank_token_session_def by (rule reachable.after [OF reachable_example_world])
  then show ?thesis
    by (simp add: checkAuthStatus_def Let_def blank_token_session_store initial_state_def)
qed

text \<open>
  C4, amended. In every reachable state \<open>user\<close> is null or has the role ADMIN.
  \<open>login\<close>, when the response's user has the role ADMIN, commits \<open>user\<close>,
  \<open>accessToken\<close> and \<open>refreshToken\<close> from the response; when the response's user has
  another role it throws 'Access denied. Admin privileges required.'; whenever it
  throws, \<open>user\<close>, \<open>accessToken\<close> and \<open>refreshToken\<close> are as before, and whenever it
  returns, the user it leaves has the role ADMIN. \<open>checkAuthStatus\<close> is true exactly
  when \<open>user\<close> is non-null with the role ADMIN and \<open>accessToken\<close> is truthy, that is
  neither null nor the empty string.
\<close>

theorem admin_invariant:
  "(reachable w \<longrightarrow>
      user (store w) = JNull \<or> get_prop (user (store w)) ''role'' = Inr (JStr ''ADMIN'')) \<and>
   (next_succeeds net w d \<and> d \<noteq> JNull \<and> d \<noteq> JUndefined \<and>
    get_prop (field d ''user'') ''role'' = Inr (JStr ''ADMIN'') \<longrightarrow>
      fst (login net email password w) = Inr () \<and>
      store (snd (login net email password w)) =
        (store w)\<lparr> user := field d ''user'', accessToken := field d ''access_token'',
                    refreshToken := field d ''refresh_token'', isLoading := False,
                    authError := None \<rparr>) \<and>
   (next_succeeds net w d \<and> d \<noteq> JNull \<and> d \<noteq> JUndefined \<and>
    get_prop (field d ''user'') ''role'' = Inr r \<and> r \<noteq> JStr ''ADMIN'' \<longrightarrow>
      fst (login net email password w) =
        Inl (JsError ''Access denied. Admin privileges required.'')) \<and>
   ((\<exists>e. fst (login net email password w) = Inl e) \<longrightarrow>
      user (store (snd (login net email password w))) = user (store w) \<and>
      accessToken (store (snd (login net email password w))) = accessToken (store w) \<and>
      refreshToken (store (snd (login net email password w))) = refreshToken (store w)) \<and>
   (fst (login net email password w) = Inr () \<longrightarrow>
      get_prop (user (store (snd (login net email password w)))) ''role'' =
        Inr (JStr ''ADMIN'')) \<and>
   (checkAuthStatus w \<longleftrightarrow>
      user (store w) \<noteq> JNull \<and> truthy (accessToken (store w)) \<and>
      get_prop (user (store w)) ''role'' = Inr (JStr ''ADMIN''))"
proof (intro conjI impI)
  assume "reachable w"
  then have "admin_or_null (user (store w))"
    by (simp add: reachable_admin_only admin_only_user)
  then show "user (store w) = JNull \<or> get_prop (user (store w)) ''role'' = Inr (JStr ''ADMIN'')"
    by (simp add: admin_or_null_def)
next
  assume a: "next_succeeds net w d \<and> d \<noteq> JNull \<and> d \<noteq> JUndefined \<and>
    get_prop (field d ''user'') ''role'' = Inr (JStr ''ADMIN'')"
  note l = login_admin [of net w d email password]
  from a l show "fst (login net email password w) = Inr ()"
    by simp
  from a l show "store (snd (login net email password w)) =
        (store w)\<lparr> user := field d ''user'', accessToken := field d ''access_token'',
                    refreshToken := field d ''refresh_token'', isLoading := False,
                    authError := None \<rparr>"
    by simp
next
  assume "next_succeeds net w d \<and> d \<noteq> JNull \<and> d \<noteq> JUndefined \<and>
    get_prop (field d ''user'') ''role'' = Inr r \<and> r \<noteq> JStr ''ADMIN''"
  then show "fst (login net email password w) =
        Inl (JsError ''Access denied. Admin privileges required.'')"
    using login_denied [of net w d r email password] by blast
next
  assume "\<exists>e. fst (login net email password w) = Inl e"
  then obtain e where e: "fst (login net email password w) = Inl e" ..
  note t = login_thrown [OF e]
  from t show "user (store (snd (login net email password w))) = user (store w)" by simp
  from t show "accessToken (store (snd (login net email password w))) = accessToken (store w)"
    by simp
  from t show "refreshToken (store (snd (login net email password w))) = refreshToken (store w)"
    by simp
next
  assume "fst (login net email password w) = Inr ()"
  then show "get_prop (user (store (snd (login net email password w)))) ''role'' =
        Inr (JStr ''ADMIN'')"
    by (rule login_returned)
next
  show "checkAuthStatus w \<longleftrightarrow>
      user (store w) \<noteq> JNull \<and> truthy (accessToken (store w)) \<and>
      get_prop (user (store w)) ''role'' = Inr (JStr ''ADMIN'')"
    by (rule checkAuthStatus_iff)
qed

theorem admin_invariant_witness:
  "reachable admin_session \<and>
   get_prop (user (store admin_session)) ''role'' = Inr (JStr ''ADMIN'') \<and>
   checkAuthStatus admin_session \<and>
   fst (login (always guest_reply) ''guest@example.com'' ''secret'' admin_session) =
     Inl (JsError ''Access denied. Admin privileges required.'') \<and>
   user (store (snd (login (always guest_reply) ''guest@example.com'' ''secret'' admin_session))) =
     user (store admin_session)"
proof -
  note t = admin_invariant [where w = admin_session and net = "always guest_reply"
      and d = guest_reply and r = "JStr ''USER''" and email = "''guest@example.com''"
      and password = "''secret''"]
  have r: "reachable admin_session"
    by (rule reachable_admin_session)
  have u: "user (store admin_session) \<noteq> JNull" "truthy (accessToken (store admin_session))"
    by (simp_all add: admin_session_store)
  from t r u have role: "get_prop (user (store admin_session)) ''role'' = Inr (JStr ''ADMIN'')"
    by blast
  from t u role have chk: "checkAuthStatus admin_session"
    by blast
  have g: "next_succeeds (always guest_reply) admin_session guest_reply \<and>
           guest_reply \<noteq> JNull \<and> guest_reply \<noteq> JUndefined \<and>
           get_prop (field guest_reply ''user'') ''role'' = Inr (JStr ''USER'') \<and>
           JStr ''USER'' \<noteq> JStr ''ADMIN''"
    by (simp add: next_succeeds_always guest_reply_def field_def)
  note denied = t [THEN conjunct2, THEN conjunct2, THEN conjunct1, THEN mp, OF g]
  then have "\<exists>e. fst (login (always guest_reply) ''guest@example.com'' ''secret'' admin_session) = Inl e"
    by blast
  note kept = t [THEN conjunct2, THEN conjunct2, THEN conjunct2, THEN conjunct1, THEN mp, OF this]
  from r role chk denied kept show ?thesis
    by blast
qed

section \<open>Properties of the bookings page\<close>

lemma sent_fetchBookings:
  "sent (snd (fetchBookings net w)) =
     sent w @ [\<lparr> meth = GET, url = bookings_baseUrl w @ ''/bookings'',
                 headers = [bearer (localStorage_getItem w ''adminToken''), content_json],
                 body = NoBody, timeout = None \<rparr>]"
  by (simp add: fetchBookings_def fetchBookings_try_def Let_def fetch_request_def
        setLoading_def setError_def setBookings_def navigate_def logout_def set_state_def
        sending_def bookings_baseUrl_def localStorage_getItem_def
        split: reply.splits)

lemma fetchBookings_returns: "fst (fetchBookings net w) = Inr ()"
  by (simp add: fetchBookings_def split: prod.splits sum.splits)

lemma updateBookingStatus_returns: "fst (updateBookingStatus net bid status w) = Inr ()"
  by (simp add: updateBookingStatus_def split: prod.splits sum.splits)

lemma status_endpoint_other:
  "status \<noteq> ''CONFIRMED'' \<Longrightarrow> status \<noteq> ''COMPLETED'' \<Longrightarrow> status \<noteq> ''CANCELLED'' \<Longrightarrow>
   status_endpoint base bid status = Inl (JsError ''Invalid status'')"
  by (simp add: status_endpoint_def)

lemma updateBookingStatus_other:
  assumes "status \<noteq> ''CONFIRMED''" and "status \<noteq> ''COMPLETED''" and "status \<noteq> ''CANCELLED''"
  shows "updateBookingStatus_try net bid status w = (Inl (JsError ''Invalid status''), w)"
    and "updateBookingStatus net bid status w =
           (Inr (), alert ''Failed to update booking status'' w)"
  using assms
  by (simp_all add: updateBookingStatus_def updateBookingStatus_try_def Let_def
        status_endpoint_other)

lemma updateBookingStatus_patches:
  assumes "status_endpoint (bookings_baseUrl w) bid status = Inr endpoint"
  shows "map (\<lambda>r. (meth r, url r))
           (filter (\<lambda>r. meth r = PATCH)
              (new_requests w (snd (updateBookingStatus net bid status w)))) =
         [(PATCH, endpoint)]"
  using assms
  by (simp add: updateBookingStatus_def updateBookingStatus_try_def Let_def fetch_request_def
        new_requests_def sent_fetchBookings alert_def
        split: reply.splits)

lemma new_requests_alert: "new_requests w (alert m w) = []"
  by (simp add: new_requests_def alert_def)

text \<open>
  C8, as the claim states it, fails: for the status PENDING \<open>updateBookingStatus\<close>
  throws nothing. It returns normally, having sent no request and shown the alert
  'Failed to update booking status'.
\<close>

theorem updateBookingStatus_counterexample:
  "fst (updateBookingStatus offline ''b1'' ''PENDING'' example_world) \<noteq>
     Inl (JsError ''Invalid status'') \<and>
   fst (updateBookingStatus offline ''b1'' ''PENDING'' example_world) = Inr () \<and>
   sent (snd (updateBookingStatus offline ''b1'' ''PENDING'' example_world)) = [] \<and>
   alerts (snd (updateBookingStatus offline ''b1'' ''PENDING'' example_world)) =
     [''Failed to update booking status'']"
  by (simp add: updateBookingStatus_def updateBookingStatus_try_def Let_def
        status_endpoint_def alert_def example_world_def first_visit_def)

text \<open>
  C8, amended. A booking's status is one of PENDING, CONFIRMED, COMPLETED and
  CANCELLED, as the interface declares. \<open>updateBookingStatus\<close> sends a PATCH to
  \<open>/bookings/<id>/confirm\<close>, \<open>/bookings/<id>/complete\<close> or \<open>/bookings/<id>/cancel\<close>
  exactly when the requested status is CONFIRMED, COMPLETED or CANCELLED, and no
  other PATCH. For any other status (PENDING among them) the error 'Invalid status'
  is raised inside its \<open>try\<close> block before any request, and its own \<open>catch\<close> turns it
  into the alert 'Failed to update booking status': the function sends nothing and
  throws nothing to its caller, as it never does.
\<close>

theorem updateBookingStatus_endpoints:
  "st \<in> {PENDING, CONFIRMED, COMPLETED, CANCELLED} \<and>
   map (\<lambda>r. (meth r, url r))
     (filter (\<lambda>r. meth r = PATCH)
        (new_requests w (snd (updateBookingStatus net bid status w)))) =
     (if status = ''CONFIRMED''
        then [(PATCH, bookings_baseUrl w @ ''/bookings/'' @ bid @ ''/confirm'')]
      else if status = ''COMPLETED''
        then [(PATCH, bookings_baseUrl w @ ''/bookings/'' @ bid @ ''/complete'')]
      else if status = ''CANCELLED''
        then [(PATCH, bookings_baseUrl w @ ''/bookings/'' @ bid @ ''/cancel'')]
      else []) \<and>
   (status \<noteq> ''CONFIRMED'' \<and> status \<noteq> ''COMPLETED'' \<and> status \<noteq> ''CANCELLED'' \<longrightarrow>
      updateBookingStatus_try net bid status w = (Inl (JsError ''Invalid status''), w) \<and>
      updateBookingStatus net bid status w =
        (Inr (), alert ''Failed to update booking status'' w) \<and>
      new_requests w (snd (updateBookingStatus net bid status w)) = []) \<and>
   updateBookingStatus net bid (status_name PENDING) w =
     (Inr (), alert ''Failed to update booking status'' w) \<and>
   fst (updateBookingStatus net bid status w) = Inr ()"
proof (intro conjI impI)
  show "st \<in> {PENDING, CONFIRMED, COMPLETED, CANCELLED}"
    by (cases st) simp_all
next
  show "map (\<lambda>r. (meth r, url r))
     (filter (\<lambda>r. meth r = PATCH)
        (new_requests w (snd (updateBookingStatus net bid status w)))) =
     (if status = ''CONFIRMED''
        then [(PATCH, bookings_baseUrl w @ ''/bookings/'' @ bid @ ''/confirm'')]
      else if status = ''COMPLETED''
        then [(PATCH, bookings_baseUrl w @ ''/bookings/'' @ bid @ ''/complete'')]
      else if status = ''CANCELLED''
        then [(PATCH, bookings_baseUrl w @ ''/bookings/'' @ bid @ ''/cancel'')]
      else [])"
  proof (cases "status_endpoint (bookings_baseUrl w) bid status")
    case (Inl e)
    then have o: "status \<noteq> ''CONFIRMED''" "status \<noteq> ''COMPLETED''" "status \<noteq> ''CANCELLED''"
      by (auto simp: status_endpoint_def split: if_splits)
    then show ?thesis
      by (simp add: updateBookingStatus_other new_requests_alert)
  next
    case (Inr endpoint)
    from updateBookingStatus_patches [OF this] Inr show ?thesis
      by (auto simp: status_endpoint_def split: if_splits)
  qed
next
  assume o: "status \<noteq> ''CONFIRMED'' \<and> status \<noteq> ''COMPLETED'' \<and> status \<noteq> ''CANCELLED''"
  then show "updateBookingStatus_try net bid status w = (Inl (JsError ''Invalid status''), w)"
    by (simp add: updateBookingStatus_other)
  from o show "updateBookingStatus net bid status w =
        (Inr (), alert ''Failed to update booking status'' w)"
    by (simp add: updateBookingStatus_other)
  from o show "new_requests w (snd (updateBookingStatus net bid status w)) = []"
    by (simp add: updateBookingStatus_other new_requests_alert)
next
  show "updateBookingStatus net bid (status_name PENDING) w =
     (Inr (), alert ''Failed to update booking status'' w)"
    by (simp add: updateBookingStatus_other)
next
  show "fst (updateBookingStatus net bid status w) = Inr ()"
    by (rule updateBookingStatus_returns)
qed

theorem updateBookingStatus_endpoints_witness:
  "map (\<lambda>r. (meth r, url r))
     (filter (\<lambda>r. meth r = PATCH)
        (new_requests example_world
           (snd (updateBookingStatus (always JNull) ''b1'' ''CANCELLED'' example_world)))) =
     [(PATCH, ''http://localhost:3006/bookings/b1/cancel'')] \<and>
   new_requests example_world
     (snd (updateBookingStatus (always JNull) ''b1'' ''REFUNDED'' example_world)) = []"
proof -
  note t = updateBookingStatus_endpoints [of PENDING example_world "always JNull" "''b1''"]
  have b: "bookings_baseUrl example_world = ''http://localhost:3006''"
    by (simp add: bookings_baseUrl_def example_world_def first_visit_def env_or_def)
  from t [of "''CANCELLED''"] t [of "''REFUNDED''"] b show ?thesis
    by (simp add: new_requests_alert)
qed

section \<open>Authorization of requests\<close>

lemma authorized_bearer [simp]: "authorized tok \<lparr> meth = m, url = u, headers = bearer tok # hs,
    body = b, timeout = t \<rparr>"
  by (simp add: authorized_def bearer_def)

lemma sent_fetchAllReviews:
  "sent (snd (fetchAllReviews net page limit verified w)) =
     sent w @ [\<lparr> meth = GET,
                 url = API_BASE_URL w @ ''/admin/reviews?'' @
                       review_params (case page of None \<Rightarrow> 1 | Some p \<Rightarrow> p)
                         (case limit of None \<Rightarrow> 10 | Some l \<Rightarrow> l) verified,
                 headers = [bearer (accessToken (store w))], body = NoBody, timeout = None \<rparr>]"
  by (simp add: fetchAllReviews_def store_reviews_def Let_def axios_request_def
        split: axios_result.splits sum.splits)

lemma sent_fetchPackageReviews:
  "sent (snd (fetchPackageReviews net pid page limit w)) =
     sent w @ [\<lparr> meth = GET,
                 url = API_BASE_URL w @ ''/packages/'' @ pid @ ''/reviews?page='' @
                       show_int (case page of None \<Rightarrow> 1 | Some p \<Rightarrow> p) @ ''&limit='' @
                       show_int (case limit of None \<Rightarrow> 10 | Some l \<Rightarrow> l),
                 headers = [bearer (accessToken (store w))], body = NoBody, timeout = None \<rparr>]"
  by (simp add: fetchPackageReviews_def store_reviews_def Let_def axios_request_def
        split: axios_result.splits sum.splits)

lemma sent_fetchPackageById:
  "sent (snd (fetchPackageById net ident w)) =
     sent w @ [\<lparr> meth = GET, url = API_BASE_URL w @ ''/packages/'' @ ident,
                 headers = [bearer (accessToken (store w))], body = NoBody, timeout = None \<rparr>]"
  by (simp add: fetchPackageById_def Let_def axios_request_def
        split: axios_result.splits sum.splits)

lemma sent_fetchCarouselItems:
  "sent (snd (fetchCarouselItems net w)) =
     sent w @ [\<lparr> meth = GET, url = carousel_baseUrl w @ ''/carousel/admin'',
                 headers = [bearer (accessToken (store w))], body = NoBody, timeout = None \<rparr>]"
  by (simp add: fetchCarouselItems_def fetchCarouselItems_try_def Let_def fetch_request_def
        setCarouselLoading_def setCarouselError_def setCarouselItems_def sending_def
        carousel_baseUrl_def split: reply.splits sum.splits)

lemma sent_fetchHealthStatus:
  "sent (snd (fetchHealthStatus net w)) =
     sent w @ [\<lparr> meth = GET, url = API_BASE_URL w @ ''/health'',
                 headers = (if truthy (accessToken (store w))
                            then [bearer (accessToken (store w))] else []),
                 body = NoBody, timeout = Some 5000 \<rparr>]"
  by (simp add: fetchHealthStatus_def Let_def axios_request_def split: axios_result.splits)

lemma sent_login:
  "sent (snd (login net email password w)) =
     sent w @ [\<lparr> meth = POST, url = API_BASE_URL w @ ''/auth/login'', headers = [],
                 body = JsonBody (JObj [(''email'', JStr email), (''password'', JStr password)]),
                 timeout = None \<rparr>]"
  by (simp add: login_def login_try_def Let_def axios_request_def
        split: axios_result.splits sum.splits)

lemma sent_logout [simp]: "sent (logout w) = sent w"
  by (simp add: logout_def)

lemma sent_refreshAccessToken:
  "sent (snd (refreshAccessToken net w)) =
     (if truthy (refreshToken (store w))
      then sent w @ [\<lparr> meth = POST, url = API_BASE_URL w @ ''/auth/refresh'',
                        headers = [bearer (refreshToken (store w))],
                        body = JsonBody (JObj []), timeout = None \<rparr>]
      else sent w)"
  by (simp add: refreshAccessToken_def refreshAccessToken_try_def Let_def axios_request_def
        split: axios_result.splits sum.splits)

lemma store_fetchCarouselItems [simp]: "store (snd (fetchCarouselItems net w)) = store w"
  by (simp add: fetchCarouselItems_def fetchCarouselItems_try_def Let_def fetch_request_def
        setCarouselLoading_def setCarouselError_def setCarouselItems_def sending_def
        split: reply.splits sum.splits)

lemma sends_fetchPackages:
  "sends_with (authorized (accessToken (store w))) w (snd (fetchPackages net w))"
  by (simp add: sends_with_def new_requests_def sent_fetchPackages)

lemma sends_fetchPackageById:
  "sends_with (authorized (accessToken (store w))) w (snd (fetchPackageById net ident w))"
  by (simp add: sends_with_def new_requests_def sent_fetchPackageById)

lemma sends_fetchAllReviews:
  "sends_with (authorized (accessToken (store w))) w
     (snd (fetchAllReviews net page limit verified w))"
  by (simp add: sends_with_def new_requests_def sent_fetchAllReviews)

lemma sends_fetchPackageReviews:
  "sends_with (authorized (accessToken (store w))) w
     (snd (fetchPackageReviews net pid page limit w))"
  by (simp add: sends_with_def new_requests_def sent_fetchPackageReviews)

lemma sends_createPackage:
  "sends_with (authorized (accessToken (store w))) w (snd (createPackage net pd w))"
  by (simp add: sends_with_def new_requests_def createPackage_def Let_def axios_request_def
        case_returns fetchPackages_returns sent_fetchPackages split: axios_result.splits)

lemma sends_updatePackage:
  "sends_with (authorized (accessToken (store w))) w (snd (updatePackage net ident pd w))"
  by (simp add: sends_with_def new_requests_def updatePackage_def Let_def axios_request_def
        case_returns fetchPackages_returns sent_fetchPackages split: axios_result.splits)

lemma sends_deletePackage:
  "sends_with (authorized (accessToken (store w))) w (snd (deletePackage net ident w))"
  by (simp add: sends_with_def new_requests_def deletePackage_def Let_def axios_request_def
        case_returns fetchPackages_returns sent_fetchPackages split: axios_result.splits)

lemma sends_approveReview:
  "sends_with (authorized (accessToken (store w))) w (snd (approveReview net rid w))"
  by (simp add: sends_with_def new_requests_def approveReview_def Let_def axios_request_def
        case_returns fetchAllReviews_returns sent_fetchAllReviews split: axios_result.splits)

lemma sends_deleteReview:
  "sends_with (authorized (accessToken (store w))) w (snd (deleteReview net rid w))"
  by (simp add: sends_with_def new_requests_def deleteReview_def Let_def axios_request_def
        case_returns fetchAllReviews_returns sent_fetchAllReviews split: axios_result.splits)

lemma sends_fetchCarouselItems:
  "sends_with (authorized (accessToken (store w))) w (snd (fetchCarouselItems net w))"
  by (simp add: sends_with_def new_requests_def sent_fetchCarouselItems)

lemma sends_handleDelete:
  "sends_only (authorized (accessToken (store w))) w (snd (handleDelete net confirmed ident w))"
  by (simp add: sends_only_def new_requests_def handleDelete_def Let_def fetch_request_def
        sent_fetchCarouselItems alert_def sending_def split: reply.splits)

lemma sends_handleDelete_confirmed:
  "new_requests w (snd (handleDelete net True ident w)) \<noteq> []"
  by (simp add: new_requests_def handleDelete_def Let_def fetch_request_def
        sent_fetchCarouselItems alert_def sending_def split: reply.splits)

lemma sends_handleToggleActive:
  "sends_with (authorized (accessToken (store w))) w (snd (handleToggleActive net ident cur w))"
  by (simp add: sends_with_def new_requests_def handleToggleActive_def Let_def fetch_request_def
        sent_fetchCarouselItems alert_def sending_def split: reply.splits)

lemma sends_loadCarouselItem:
  "sends_with (authorized (accessToken (store w))) w (snd (loadCarouselItem net ident w))"
  by (simp add: sends_with_def new_requests_def loadCarouselItem_def loadCarouselItem_try_def
        Let_def fetch_request_def alert_def sending_def navigate_def setFetchingItem_def
        setCarouselForm_def split: reply.splits sum.splits)

lemma sends_uploadImage:
  "sends_with (authorized (accessToken (store w))) w (snd (uploadImage fallback net upload w))"
  by (simp add: sends_with_def new_requests_def uploadImage_def Let_def fetch_request_def
        sending_def split: reply.splits sum.splits)

lemma sends_handleSubmit:
  "sends_only (authorized (accessToken (store w))) w (snd (handleSubmit net newErrors ident w))"
  by (simp add: sends_only_def new_requests_def handleSubmit_def Let_def fetch_request_def
        alert_def sending_def navigate_def setCarouselEditLoading_def setErrors_def
        split: reply.splits)

lemma sends_handleSubmit_valid:
  "new_requests w (snd (handleSubmit net [] ident w)) \<noteq> []"
  by (simp add: new_requests_def handleSubmit_def Let_def fetch_request_def
        alert_def sending_def navigate_def setCarouselEditLoading_def setErrors_def
        split: reply.splits)

lemma sent_uploadImage:
  "sent (snd (uploadImage fallback net upload w)) =
     sent w @ [\<lparr> meth = POST, url = env_or (env_api_base w) fallback @ ''/upload/image'',
                 headers = [bearer (accessToken (store w))], body = FormData upload,
                 timeout = None \<rparr>]"
  by (simp add: uploadImage_def Let_def fetch_request_def split: reply.splits sum.splits)

lemma sends_handleImageUpload:
  "sends_only (authorized (accessToken (store w))) w (snd (handleImageUpload net upload w))"
proof (cases upload)
  case None
  then show ?thesis
    by (simp add: sends_only_def new_requests_def handleImageUpload_def)
next
  case (Some f)
  let ?u = "uploadImage ''http://localhost:3002'' net f (setUploadingImage True w)"
  have "sent (snd (handleImageUpload net upload w)) = sent (snd ?u)"
    by (simp add: handleImageUpload_def Some setUploadingImage_def updateForm_def alert_def
          split: prod.splits sum.splits)
  then show ?thesis
    by (simp add: sends_only_def new_requests_def sent_uploadImage setUploadingImage_def)
qed

lemma sends_handleCoverImageUpload:
  "sends_only (authorized (accessToken (store w))) w (snd (handleCoverImageUpload net upload w))"
proof (cases upload)
  case None
  then show ?thesis
    by (simp add: sends_only_def new_requests_def handleCoverImageUpload_def)
next
  case (Some f)
  let ?u = "uploadImage ''http://localhost:3002'' net f (setUploadingImage_package True w)"
  have "sent (snd (handleCoverImageUpload net upload w)) = sent (snd ?u)"
    by (simp add: handleCoverImageUpload_def Some setUploadingImage_package_def
          updateForm_package_def alert_def split: prod.splits sum.splits)
  then show ?thesis
    by (simp add: sends_only_def new_requests_def sent_uploadImage setUploadingImage_package_def)
qed

lemma sends_handleSubmit_package:
  "sends_only (authorized (accessToken (store w))) w
     (snd (handleSubmit_package net newErrors ident w))"
proof (cases "newErrors = []")
  case False
  then show ?thesis
    by (simp add: sends_only_def new_requests_def handleSubmit_package_def Let_def
          setErrors_package_def)
next
  case True
  let ?w1 = "setLoading_package True (setErrors_package [] w)"
  have w1: "sent ?w1 = sent w" "store ?w1 = store w"
    by (simp_all add: setLoading_package_def setErrors_package_def)
  have "sent (snd (handleSubmit_package net newErrors ident w)) =
        sent (snd (updatePackage net ident
          (JObj [(''title'', field (form (packageEdit ?w1)) ''title''),
                 (''description'', field (form (packageEdit ?w1)) ''description''),
                 (''location'', field (form (packageEdit ?w1)) ''location''),
                 (''price'', field (form (packageEdit ?w1)) ''price''),
                 (''duration'', field (form (packageEdit ?w1)) ''duration''),
                 (''category'', field (form (packageEdit ?w1)) ''category''),
                 (''difficulty'', field (form (packageEdit ?w1)) ''difficulty''),
                 (''coverImage'', field (form (packageEdit ?w1)) ''coverImage'')]) ?w1))"
    by (simp add: handleSubmit_package_def True Let_def setLoading_package_def alert_def
          navigate_def split: prod.splits sum.splits)
  moreover note sends_updatePackage [of ?w1 net ident]
  ultimately show ?thesis
    by (simp add: sends_only_def sends_with_def new_requests_def w1)
qed

lemma sent_setFetchingPackage [simp]: "sent (setFetchingPackage b w) = sent w"
  by (simp add: setFetchingPackage_def)

lemma store_setFetchingPackage [simp]: "store (setFetchingPackage b w) = store w"
  by (simp add: setFetchingPackage_def)

lemma env_setFetchingPackage [simp]: "env_api_base (setFetchingPackage b w) = env_api_base w"
  by (simp add: setFetchingPackage_def)

lemma sends_loadPackageData:
  "sends_only (authorized (accessToken (store w))) w (snd (loadPackageData net ident w))"
proof -
  let ?w1 = "setFetchingPackage True w"
  obtain v w2 where f: "fetchPackageById net ident ?w1 = (Inr v, w2)"
    using fetchPackageById_returns [of net ident ?w1]
    by (cases "fetchPackageById net ident ?w1") auto
  have s: "sent w2 = sent w @ [\<lparr> meth = GET, url = API_BASE_URL w @ ''/packages/'' @ ident,
                 headers = [bearer (accessToken (store w))], body = NoBody, timeout = None \<rparr>]"
    using sent_fetchPackageById [of net ident ?w1] f by (simp add: API_BASE_URL_def)
  show ?thesis
    using f s
    by (auto simp: sends_only_def new_requests_def loadPackageData_def loadPackageData_try_def
          Let_def alert_def navigate_def setPackageForm_def setFetchingPackage_def
          split: json.splits sum.splits)
qed

lemma admin_session_items: "other_items admin_session = (\<lambda>k. None)"
  by (simp add: admin_session_def login_def login_try_def Let_def axios_request_def
        axios_settle_def always_def status_ok_def admin_reply_def
        example_world_def first_visit_def set_state_def sending_def)

text \<open>
  C3, as the claim states it, fails twice in the session of an administrator whose
  access token is A1: the bookings page sends what localStorage holds under the key
  adminToken, which the store never writes, so its request carries 'Bearer null';
  and \<open>refreshAccessToken\<close> sends the refresh token R1.
\<close>

theorem bearer_counterexample:
  "accessToken (store admin_session) = JStr ''A1'' \<and>
   map headers (new_requests admin_session (snd (fetchBookings (always (JArr [])) admin_session))) =
     [[(''Authorization'', ''Bearer null''), (''Content-Type'', ''application/json'')]] \<and>
   map headers
     (new_requests admin_session (snd (refreshAccessToken (always admin_reply) admin_session))) =
     [[(''Authorization'', ''Bearer R1'')]]"
  by (simp add: new_requests_def sent_fetchBookings sent_refreshAccessToken admin_session_store
        admin_session_items localStorage_getItem_def bearer_def content_json_def
        initial_state_def)

lemma new_requests_fetchHealthStatus:
  "new_requests w (snd (fetchHealthStatus net w)) =
     [\<lparr> meth = GET, url = API_BASE_URL w @ ''/health'',
        headers = (if truthy (accessToken (store w))
                   then [(''Authorization'', ''Bearer '' @ template_str (accessToken (store w)))]
                   else []),
        body = NoBody, timeout = Some 5000 \<rparr>]"
  by (simp add: new_requests_def sent_fetchHealthStatus bearer_def)

lemma new_requests_login:
  "new_requests w (snd (login net email password w)) =
     [\<lparr> meth = POST, url = API_BASE_URL w @ ''/auth/login'', headers = [],
        body = JsonBody (JObj [(''email'', JStr email), (''password'', JStr password)]),
        timeout = None \<rparr>]"
  by (simp add: new_requests_def sent_login)

lemma new_requests_refreshAccessToken:
  "new_requests w (snd (refreshAccessToken net w)) =
     (if truthy (refreshToken (store w))
      then [\<lparr> meth = POST, url = API_BASE_URL w @ ''/auth/refresh'',
               headers = [(''Authorization'',
                           ''Bearer '' @ template_str (refreshToken (store w)))],
               body = JsonBody (JObj []), timeout = None \<rparr>]
      else [])"
  by (simp add: new_requests_def sent_refreshAccessToken bearer_def)

text \<open>
  C3, amended. With \<open>t\<close> the \<open>accessToken\<close> the store holds when the operation
  starts: every request sent by \<open>fetchPackages\<close>, \<open>fetchPackageById\<close>, \<open>createPackage\<close>,
  \<open>updatePackage\<close>, \<open>deletePackage\<close>, \<open>fetchAllReviews\<close>, \<open>fetchPackageReviews\<close>,
  \<open>approveReview\<close> and \<open>deleteReview\<close>, by the carousel page and the carousel edit
  page, by \<open>uploadImage\<close> and by the package edit page carries the header
  Authorization: Bearer \<open>t\<close>. \<open>fetchHealthStatus\<close> attaches it only when \<open>t\<close> is truthy
  (neither null nor empty); \<open>login\<close> sends no Authorization header;
  \<open>refreshAccessToken\<close> sends Bearer followed by the refresh token. (The bookings
  page is left out.)
\<close>

theorem requests_authorized:
  "sends_with (authorized (accessToken (store w))) w (snd (fetchPackages net w)) \<and>
   sends_with (authorized (accessToken (store w))) w (snd (fetchPackageById net ident w)) \<and>
   sends_with (authorized (accessToken (store w))) w (snd (createPackage net pd w)) \<and>
   sends_with (authorized (accessToken (store w))) w (snd (updatePackage net ident pd w)) \<and>
   sends_with (authorized (accessToken (store w))) w (snd (deletePackage net ident w)) \<and>
   sends_with (authorized (accessToken (store w))) w
     (snd (fetchAllReviews net page limit verified w)) \<and>
   sends_with (authorized (accessToken (store w))) w
     (snd (fetchPackageReviews net ident page limit w)) \<and>
   sends_with (authorized (accessToken (store w))) w (snd (approveReview net ident w)) \<and>
   sends_with (authorized (accessToken (store w))) w (snd (deleteReview net ident w)) \<and>
   sends_with (authorized (accessToken (store w))) w (snd (fetchCarouselItems net w)) \<and>
   sends_only (authorized (accessToken (store w))) w (snd (handleDelete net confirmed ident w)) \<and>
   new_requests w (snd (handleDelete net True ident w)) \<noteq> [] \<and>
   sends_with (authorized (accessToken (store w))) w
     (snd (handleToggleActive net ident currentStatus w)) \<and>
   sends_with (authorized (accessToken (store w))) w (snd (loadCarouselItem net ident w)) \<and>
   sends_with (authorized (accessToken (store w))) w (snd (uploadImage fallback net file w)) \<and>
   sends_only (authorized (accessToken (store w))) w
     (snd (handleSubmit net newErrors ident w)) \<and>
   new_requests w (snd (handleSubmit net [] ident w)) \<noteq> [] \<and>
   sends_only (authorized (accessToken (store w))) w (snd (loadPackageData net ident w)) \<and>
   new_requests w (snd (fetchHealthStatus net w)) =
     [\<lparr> meth = GET, url = API_BASE_URL w @ ''/health'',
        headers = (if truthy (accessToken (store w))
                   then [(''Authorization'', ''Bearer '' @ template_str (accessToken (store w)))]
                   else []),
        body = NoBody, timeout = Some 5000 \<rparr>] \<and>
   new_requests w (snd (login net email password w)) =
     [\<lparr> meth = POST, url = API_BASE_URL w @ ''/auth/login'', headers = [],
        body = JsonBody (JObj [(''email'', JStr email), (''password'', JStr password)]),
        timeout = None \<rparr>] \<and>
   new_requests w (snd (refreshAccessToken net w)) =
     (if truthy (refreshToken (store w))
      then [\<lparr> meth = POST, url = API_BASE_URL w @ ''/auth/refresh'',
               headers = [(''Authorization'',
                           ''Bearer '' @ template_str (refreshToken (store w)))],
               body = JsonBody (JObj []), timeout = None \<rparr>]
      else []) \<and>
   sends_only (authorized (accessToken (store w))) w (snd (handleImageUpload net upload w)) \<and>
   sends_only (authorized (accessToken (store w))) w
     (snd (handleCoverImageUpload net upload w)) \<and>
   sends_only (authorized (accessToken (store w))) w
     (snd (handleSubmit_package net newErrors ident w))"
  by (simp add: sends_fetchPackages sends_fetchPackageById sends_createPackage
        sends_updatePackage sends_deletePackage sends_fetchAllReviews sends_fetchPackageReviews
        sends_approveReview sends_deleteReview sends_fetchCarouselItems sends_handleDelete
        sends_handleDelete_confirmed sends_handleToggleActive sends_loadCarouselItem
        sends_uploadImage sends_handleSubmit sends_handleSubmit_valid sends_loadPackageData
        new_requests_fetchHealthStatus new_requests_login new_requests_refreshAccessToken
        sends_handleImageUpload sends_handleCoverImageUpload sends_handleSubmit_package)

theorem requests_authorized_witness:
  "new_requests admin_session (snd (deletePackage (always JNull) ''p1'' admin_session)) \<noteq> [] \<and>
   list_all (authorized (JStr ''A1''))
     (new_requests admin_session (snd (deletePackage (always JNull) ''p1'' admin_session))) \<and>
   list_all (authorized (JStr ''A1''))
     (new_requests admin_session (snd (handleDelete offline True ''c1'' admin_session))) \<and>
   authorized (JStr ''A1'')
     \<lparr> meth = GET, url = ''/'', headers = [(''Authorization'', ''Bearer A1'')], body = NoBody,
       timeout = None \<rparr> \<and>
   map headers (new_requests example_world (snd (fetchHealthStatus offline example_world))) = [[]]"
proof -
  note t = requests_authorized [where w = admin_session and net = "always JNull"
      and ident = "''p1''", THEN conjunct2, THEN conjunct2, THEN conjunct2, THEN conjunct2,
      THEN conjunct1]
  note u = requests_authorized [where w = admin_session and net = offline
      and ident = "''c1''" and confirmed = True, THEN conjunct2, THEN conjunct2, THEN conjunct2,
      THEN conjunct2, THEN conjunct2, THEN conjunct2, THEN conjunct2, THEN conjunct2,
      THEN conjunct2, THEN conjunct2, THEN conjunct1]
  note v = requests_authorized [where w = example_world and net = offline,
      THEN conjunct2, THEN conjunct2, THEN conjunct2, THEN conjunct2,
      THEN conjunct2, THEN conjunct2, THEN conjunct2, THEN conjunct2,
      THEN conjunct2, THEN conjunct2, THEN conjunct2, THEN conjunct2,
      THEN conjunct2, THEN conjunct2, THEN conjunct2, THEN conjunct2,
      THEN conjunct2, THEN conjunct2, THEN conjunct1]
  have e: "accessToken (store example_world) = JNull"
    by (simp add: example_world_def first_visit_def initial_state_def)
  from t u v e show ?thesis
    by (simp add: sends_with_def sends_only_def authorized_def admin_session_store
          initial_state_def)
qed

section \<open>Failed requests\<close>


lemma location_set_state [simp]: "location (set_state f w) = location w"
  by (simp add: set_state_def)

lemma location_sending [simp]: "location (sending r w) = location w"
  by (simp add: sending_def)
































section \<open>Properties of the reviews page\<close>

lemma length_concat_replicate: "length (concat (replicate n s)) = n * length s"
  by (induction n) simp_all

lemma renderStars_units:
  "0 \<le> r \<Longrightarrow> r \<le> 5 \<Longrightarrow>
   renderStars r =
     Inr (concat (replicate (nat r) filled_literal) @
          concat (replicate (nat (5 - r)) hollow_literal))"
  by (simp add: renderStars_def js_repeat_def max_string_length_def filled_literal_def
        hollow_literal_def)

lemma renderStars_throws: "r < 0 \<or> 5 < r \<Longrightarrow> \<exists>e. renderStars r = Inl e"
  by (auto simp: renderStars_def js_repeat_def split: sum.splits)

text \<open>
  C10. For the rating 3 the code returns a string of fifteen characters: three
  copies of the first literal and two of the second, each literal being three
  characters in the source file. None of them is a star (U+2B50 or U+2606), where
  the claim has five star characters.
\<close>

theorem renderStars_fifteen:
  "renderStars 3 =
     Inr [8218, 8800, 234, 8218, 8800, 234, 8218, 8800, 234, 8218, 242, 220, 8218, 242, 220] \<and>
   length [8218, 8800, 234, 8218, 8800, 234, 8218, 8800, 234, 8218, 242, 220, 8218, 242, 220 :: nat]
     = 15 \<and>
   WHITE_MEDIUM_STAR \<notin>
     set [8218, 8800, 234, 8218, 8800, 234, 8218, 8800, 234, 8218, 242, 220, 8218, 242, 220] \<and>
   WHITE_STAR \<notin>
     set [8218, 8800, 234, 8218, 8800, 234, 8218, 8800, 234, 8218, 242, 220, 8218, 242, 220]"
proof -
  have "concat (replicate (nat 3) filled_literal) @ concat (replicate (nat (5 - 3)) hollow_literal) =
        [8218, 8800, 234, 8218, 8800, 234, 8218, 8800, 234, 8218, 242, 220, 8218, 242, 220]"
    by (simp add: filled_literal_def hollow_literal_def eval_nat_numeral)
  with renderStars_units [of 3] show ?thesis
    by (simp add: WHITE_MEDIUM_STAR_def WHITE_STAR_def)
qed

end
